theory Spec2Isabelle
  imports Main
begin

section \<open>Data model of the shape feature (aesara/tensor/rewriting/shape.py)\<close>

text \<open>
  Python objects are compared by reference in this module (dictionary keys, \<open>is\<close>,
  \<open>==\<close> on variables and \<open>in\<close> on sequences of variables), so every variable and
  every apply node carries the identity of the object it stands for.
\<close>

type_synonym ident = nat

text \<open>
  The static type of a variable. \<open>TensorT dtype shape\<close> is a type that is an instance of
  \<open>HasShape\<close>: \<open>type.shape\<close> is the list of per-dimension literal sizes (\<open>None\<close> where
  the size is not known) and \<open>type.ndim\<close> its length. \<open>NdimT dtype n\<close> has \<open>dtype\<close> and
  \<open>ndim\<close> attributes but is not a \<open>HasShape\<close>. \<open>GenericT\<close> has neither attribute (the
  type of \<open>NoneConst\<close>).
\<close>

datatype ttype =
    TensorT string "int option list"
  | NdimT string nat
  | GenericT

datatype cdata = Scalar int | NoneData | ArrayData

datatype op =
    Shape_i int
  | Shape
  | Subtensor nat
  | Reshape nat
  | OtherOp string

text \<open>
  A variable is a constant (it carries data and has no owner), a free input (no owner)
  or the output of exactly one apply node. An apply node has an operator, its ordered
  inputs and the identity and type of each of its outputs.
\<close>

datatype var =
    Constant ident ttype cdata
  | FreeVar ident ttype
  | OutVar ident ttype apply_node
and apply_node =
    Apply ident op "var list" "(ident \<times> ttype) list"

fun vid :: "var \<Rightarrow> ident" where
  "vid (Constant i t d) = i"
| "vid (FreeVar i t) = i"
| "vid (OutVar i t a) = i"

fun vtype :: "var \<Rightarrow> ttype" where
  "vtype (Constant i t d) = t"
| "vtype (FreeVar i t) = t"
| "vtype (OutVar i t a) = t"

fun owner :: "var \<Rightarrow> apply_node option" where
  "owner (Constant i t d) = None"
| "owner (FreeVar i t) = None"
| "owner (OutVar i t a) = Some a"

fun is_Constant :: "var \<Rightarrow> bool" where
  "is_Constant (Constant i t d) = True"
| "is_Constant (FreeVar i t) = False"
| "is_Constant (OutVar i t a) = False"

fun nid :: "apply_node \<Rightarrow> ident" where
  "nid (Apply n f ins outs) = n"

fun aop :: "apply_node \<Rightarrow> op" where
  "aop (Apply n f ins outs) = f"

fun inputs :: "apply_node \<Rightarrow> var list" where
  "inputs (Apply n f ins outs) = ins"

text \<open>\<open>node.outputs\<close>: every output is owned by the node.\<close>

fun outputs :: "apply_node \<Rightarrow> var list" where
  "outputs (Apply n f ins outs) = map (\<lambda>(i, t). OutVar i t (Apply n f ins outs)) outs"

fun is_Shape_i :: "op \<Rightarrow> bool" where
  "is_Shape_i (Shape_i i) = True"
| "is_Shape_i f = False"

fun is_Shape :: "op \<Rightarrow> bool" where
  "is_Shape Shape = True"
| "is_Shape f = False"

fun is_Subtensor :: "op \<Rightarrow> bool" where
  "is_Subtensor (Subtensor k) = True"
| "is_Subtensor f = False"

fun is_Reshape :: "op \<Rightarrow> bool" where
  "is_Reshape (Reshape k) = True"
| "is_Reshape f = False"

fun HasShape :: "ttype \<Rightarrow> bool" where
  "HasShape (TensorT dt sh) = True"
| "HasShape t = False"

text \<open>\<open>type.ndim\<close>, \<open>type.dtype\<close> and \<open>type.shape\<close>; \<open>None\<close> is Python's AttributeError.\<close>

fun ndim :: "ttype \<Rightarrow> nat option" where
  "ndim (TensorT dt sh) = Some (length sh)"
| "ndim (NdimT dt n) = Some n"
| "ndim GenericT = None"

fun dtype :: "ttype \<Rightarrow> string option" where
  "dtype (TensorT dt sh) = Some dt"
| "dtype (NdimT dt n) = Some dt"
| "dtype GenericT = None"

fun static_shape :: "ttype \<Rightarrow> int option list" where
  "static_shape (TensorT dt sh) = sh"
| "static_shape t = []"

datatype error =
    AssertionError string
  | TypeError
  | KeyError
  | IndexError
  | AttributeError
  | ShapeError
  | NotImplementedError
  | InconsistencyError
  | Exception string
  | OverflowError
  | KeyboardInterrupt

text \<open>
  A shape element handed to the feature: a Python integer or a variable. Python floats
  and NumPy scalars, which \<open>to_symbolic_int\<close> also accepts, are left out.
\<close>

datatype shape_elem = PyInt int | SymVar var

text \<open>
  Subscripting a tuple with an integer: an index below zero is taken from the end of the
  tuple, and an index outside the tuple raises IndexError.
\<close>

definition py_index :: "'a list \<Rightarrow> int \<Rightarrow> error + 'a" where
  "py_index xs i =
     (if 0 \<le> i \<and> i < int (length xs) then Inr (xs ! nat i)
      else if i < 0 \<and> - int (length xs) \<le> i then Inr (xs ! nat (int (length xs) + i))
      else Inl IndexError)"

text \<open>
  The state of a \<open>ShapeFeature\<close>: the three dictionaries, keyed by object identity,
  the identity handed out last to an object that the feature created, and the warnings
  issued with \<open>warn\<close>. The identity 0 belongs to \<open>lscalar_one\<close>, which is created
  with the class, before any feature; every object created later has an identity above
  \<open>last_id\<close>, so above 0. An entry
  \<open>shape_of r = Some None\<close> is a tracked variable whose shape is unknown. The buckets of
  the reverse index are Python sets of variables; they are kept as lists without
  repeated identities.
\<close>

record state =
  shape_of :: "ident \<rightharpoonup> var list option"
  scheduled :: "ident \<rightharpoonup> var"
  shape_of_reverse_index :: "ident \<rightharpoonup> var list"
  last_id :: ident
  warnings :: "string list"

text \<open>
  What the feature reads of the \<open>FunctionGraph\<close>: the set \<open>fgraph.variables\<close> and the
  dictionary \<open>fgraph.clients\<close> of the consumers (node, input slot) of each variable;
  the consumer \<open>None\<close> is the marker of a graph output, which is not a node.
\<close>

record fgraph =
  variables :: "ident set"
  clients :: "ident \<rightharpoonup> (apply_node option \<times> nat) list"

type_synonym shapes = "shape_elem list option list"

text \<open>
  Functions of the library that this module calls and whose code is not part of the
  sources at hand; they are parameters of the model.
\<close>

record lib =
  get_scalar_constant_value :: "shape_elem \<Rightarrow> int option"
  extract_constant :: "bool \<Rightarrow> var \<Rightarrow> var"
  get_idx_list :: "apply_node \<Rightarrow> shape_elem list"
  infer_shape :: "op \<Rightarrow> (fgraph \<Rightarrow> apply_node \<Rightarrow> var list option list \<Rightarrow> error + shapes) option"
  on_shape_error :: string
  ancestors :: "var list \<Rightarrow> var list"
  fold_constants :: "var \<Rightarrow> var"
  equal_computations :: "var \<Rightarrow> var \<Rightarrow> bool"
  reshape_output_type :: "op \<Rightarrow> var \<Rightarrow> var \<Rightarrow> error + ttype"

definition integer_dtypes :: "string list" where
  "integer_dtypes =
     [''int8'', ''int16'', ''int32'', ''int64'', ''uint8'', ''uint16'', ''uint32'', ''uint64'']"

definition lscalar :: ttype where
  "lscalar = TensorT ''int64'' []"

text \<open>\<open>ShapeFeature.lscalar_one\<close>, created once when the class is defined.\<close>

definition lscalar_one :: var where
  "lscalar_one = Constant 0 lscalar (Scalar 1)"

text \<open>The identity of a new object.\<close>

definition fresh :: "state \<Rightarrow> ident \<times> state" where
  "fresh st = (Suc (last_id st), st\<lparr>last_id := Suc (last_id st)\<rparr>)"

text \<open>
  Modelled from the spec: the data of \<open>constant(n, dtype="int64", ndim=0)\<close>, whose code
  is not in the sources at hand. The spec has every size "coerced to a fixed 64-bit
  integer scalar representation": an integer of the int64 range is kept, one from
  \<open>2^63\<close> up to \<open>2^64 - 1\<close> wraps around to a negative int64, and any other integer
  raises OverflowError.
\<close>

definition int64_data :: "int \<Rightarrow> error + int" where
  "int64_data n =
     (if - (2 ^ 63) \<le> n \<and> n < 2 ^ 63 then Inr n
      else if 2 ^ 63 \<le> n \<and> n < 2 ^ 64 then Inr (n - 2 ^ 64)
      else Inl OverflowError)"

text \<open>
  \<open>constant(n, dtype="int64", ndim=0)\<close>: a new constant object on every call, an int64
  scalar.
\<close>

definition tensor_constant :: "state \<Rightarrow> int \<Rightarrow> error + var \<times> state" where
  "tensor_constant st n =
     (case int64_data n of
        Inl e \<Rightarrow> Inl e
      | Inr d \<Rightarrow> (case fresh st of (c, st') \<Rightarrow> Inr (Constant c lscalar (Scalar d), st')))"

text \<open>\<open>lscalar_one.equals(v)\<close>: a constant of the same type with the same data.\<close>

fun lscalar_one_equals :: "var \<Rightarrow> bool" where
  "lscalar_one_equals (Constant i t d) = (t = lscalar \<and> d = Scalar 1)"
| "lscalar_one_equals v = False"

subsection \<open>to_symbolic_int\<close>

text \<open>
  The tail of \<open>to_symbolic_int\<close>: the dtype and rank check on the variable returned.
\<close>

definition check_int_scalar :: "state \<Rightarrow> var \<Rightarrow> error + var \<times> state" where
  "check_int_scalar st s_i =
     (case dtype (vtype s_i) of
        None \<Rightarrow> Inl AttributeError
      | Some dt \<Rightarrow>
          if dt \<notin> set integer_dtypes \<or> (case ndim (vtype s_i) of None \<Rightarrow> 0 | Some k \<Rightarrow> k) \<noteq> 0
          then Inl TypeError
          else Inr (s_i, st))"

text \<open>
  The branch for \<open>s_i = x.shape[i]\<close>, entered with the owner \<open>sub\<close> of \<open>s_i\<close> (a
  \<open>Subtensor\<close>) and the owner \<open>shp\<close> of its first input (a \<open>Shape\<close>).
\<close>

definition subtensor_of_shape ::
  "lib \<Rightarrow> state \<Rightarrow> var \<Rightarrow> apply_node \<Rightarrow> apply_node \<Rightarrow> error + var \<times> state" where
  "subtensor_of_shape L st s_i sub shp =
     (case ndim (vtype s_i) of
        None \<Rightarrow> Inl AttributeError
      | Some k \<Rightarrow>
          if k \<noteq> 0 then Inl (AssertionError [])
          else if aop sub \<noteq> Subtensor 1 then Inl (AssertionError [])
          else (case get_idx_list L sub of
                  [idx] \<Rightarrow>
                    (case get_scalar_constant_value L idx of
                       None \<Rightarrow> Inr (s_i, st)
                     | Some i \<Rightarrow>
                         (case inputs shp of
                            [] \<Rightarrow> Inl IndexError
                          | x # xs \<Rightarrow>
                              (case shape_of st (vid x) of
                                 None \<Rightarrow> Inl KeyError
                               | Some None \<Rightarrow> Inl (AssertionError [])
                               | Some (Some s_x) \<Rightarrow>
                                   (case py_index s_x i of
                                      Inl e \<Rightarrow> Inl e
                                    | Inr s_i' \<Rightarrow> check_int_scalar st s_i'))))
                | _ \<Rightarrow> Inl (AssertionError [])))"

fun to_symbolic_int :: "lib \<Rightarrow> state \<Rightarrow> shape_elem \<Rightarrow> error + var \<times> state" where
  "to_symbolic_int L st (PyInt n) =
     (if n = 1 then Inr (lscalar_one, st)
      else if 0 \<le> n then tensor_constant st n
      else Inl (AssertionError []))"
| "to_symbolic_int L st (SymVar s_i) =
     (case owner s_i of
        None \<Rightarrow> check_int_scalar st s_i
      | Some sub \<Rightarrow>
          if \<not> is_Subtensor (aop sub) then check_int_scalar st s_i
          else (case inputs sub of
                  [] \<Rightarrow> Inl IndexError
                | x0 # rest \<Rightarrow>
                    (case owner x0 of
                       None \<Rightarrow> check_int_scalar st s_i
                     | Some shp \<Rightarrow>
                         if \<not> is_Shape (aop shp) then check_int_scalar st s_i
                         else subtensor_of_shape L st s_i sub shp)))"

subsection \<open>set_shape\<close>

text \<open>\<open>shape_of_reverse_index.setdefault(sv, set()).add(r)\<close>\<close>

definition reverse_add :: "(ident \<rightharpoonup> var list) \<Rightarrow> var \<Rightarrow> var \<Rightarrow> (ident \<rightharpoonup> var list)" where
  "reverse_add idx sv r =
     (let bucket = (case idx (vid sv) of None \<Rightarrow> [] | Some b \<Rightarrow> b)
      in idx(vid sv \<mapsto> (if vid r \<in> set (map vid bucket) then bucket else bucket @ [r])))"

fun reverse_add_all :: "(ident \<rightharpoonup> var list) \<Rightarrow> var list \<Rightarrow> var \<Rightarrow> (ident \<rightharpoonup> var list)" where
  "reverse_add_all idx [] r = idx"
| "reverse_add_all idx (sv # svs) r = reverse_add_all (reverse_add idx sv r) svs r"

text \<open>
  The loop of \<open>set_shape\<close> over \<open>range(r.type.ndim)\<close>: \<open>sh\<close> is what remains of
  \<open>r.type.shape\<close> when \<open>r.type\<close> is a \<open>HasShape\<close> (\<open>None\<close> otherwise) and \<open>s\<close> what
  remains of the shape handed in.
\<close>

fun set_shape_loop ::
  "lib \<Rightarrow> state \<Rightarrow> int option list option \<Rightarrow> shape_elem list \<Rightarrow> error + var list \<times> state" where
  "set_shape_loop L st sh [] = Inr ([], st)"
| "set_shape_loop L st sh (s_i # s) =
     (case (case sh of
              Some (Some n # ns) \<Rightarrow> tensor_constant st n
            | Some [] \<Rightarrow> Inl IndexError
            | _ \<Rightarrow> to_symbolic_int L st s_i) of
        Inl e \<Rightarrow> Inl e
      | Inr (v, st') \<Rightarrow>
          (case set_shape_loop L st' (map_option tl sh) s of
             Inl e \<Rightarrow> Inl e
           | Inr (vs, st'') \<Rightarrow> Inr (v # vs, st'')))"

text \<open>The assertion of \<open>set_shape\<close> and \<open>set_shape_i\<close> on dimensions of static size 1.\<close>

definition ones_canonical :: "lib \<Rightarrow> var \<Rightarrow> var list \<Rightarrow> bool" where
  "ones_canonical L r shape_vars =
     list_all (\<lambda>i.
        \<not> HasShape (vtype r)
        \<or> (i < length (static_shape (vtype r)) \<and> static_shape (vtype r) ! i \<noteq> Some 1)
        \<or> lscalar_one_equals (shape_vars ! i)
        \<or> lscalar_one_equals (extract_constant L False (shape_vars ! i)))
       [0..<length shape_vars]"

definition set_shape ::
  "lib \<Rightarrow> state \<Rightarrow> var \<Rightarrow> shape_elem list option \<Rightarrow> bool \<Rightarrow> error + state" where
  "set_shape L st r s override =
     (if \<not> override \<and> vid r \<in> dom (shape_of st)
      then Inl (AssertionError ''r already in shape_of'')
      else (case s of
              None \<Rightarrow> Inr (st\<lparr>shape_of := (shape_of st)(vid r \<mapsto> None)\<rparr>)
            | Some sl \<Rightarrow>
                (case ndim (vtype r) of
                   None \<Rightarrow> Inl AttributeError
                 | Some nd \<Rightarrow>
                     if nd \<noteq> length sl
                     then Inl (AssertionError ''A shape with len(s) dimensions was inferred'')
                     else (case set_shape_loop L st
                                  (if HasShape (vtype r) then Some (static_shape (vtype r)) else None)
                                  sl of
                             Inl e \<Rightarrow> Inl e
                           | Inr (shape_vars, st') \<Rightarrow>
                               if \<not> ones_canonical L r shape_vars then Inl (AssertionError [])
                               else Inr (st'\<lparr>shape_of := (shape_of st')(vid r \<mapsto> Some shape_vars),
                                             shape_of_reverse_index :=
                                               reverse_add_all (shape_of_reverse_index st')
                                                 shape_vars r\<rparr>)))))"

subsection \<open>shape_ir, shape_tuple, default_infer_shape\<close>

text \<open>
  Modelled from the spec: \<open>Shape_i(i)(r)\<close>, whose code is not in the sources at hand. It
  is the spec's dimension accessor, "an operation node that extracts one dimension's
  size from a value": a new node with the operator \<open>Shape_i i\<close>, the single input \<open>r\<close>
  and one new output, an int64 scalar.
\<close>

definition Shape_i_call :: "state \<Rightarrow> int \<Rightarrow> var \<Rightarrow> var \<times> state" where
  "Shape_i_call st i r =
     (case fresh st of
        (n, st1) \<Rightarrow>
          (case fresh st1 of
             (out, st2) \<Rightarrow> (OutVar out lscalar (Apply n (Shape_i i) [r] [(out, lscalar)]), st2)))"

definition shape_ir :: "lib \<Rightarrow> state \<Rightarrow> nat \<Rightarrow> var \<Rightarrow> error + var \<times> state" where
  "shape_ir L st i r =
     (case (if HasShape (vtype r)
            then (if i < length (static_shape (vtype r))
                  then Inr (static_shape (vtype r) ! i) else Inl IndexError)
            else Inr None) of
        Inl e \<Rightarrow> Inl e
      | Inr (Some n) \<Rightarrow> tensor_constant st n
      | Inr None \<Rightarrow>
          (case Shape_i_call st (int i) r of
             (s, st') \<Rightarrow>
               (case get_scalar_constant_value L (SymVar s) of
                  Some c \<Rightarrow> tensor_constant st' c
                | None \<Rightarrow> Inr (s, st'))))"

fun shape_ir_all :: "lib \<Rightarrow> state \<Rightarrow> nat list \<Rightarrow> var \<Rightarrow> error + var list \<times> state" where
  "shape_ir_all L st [] r = Inr ([], st)"
| "shape_ir_all L st (i # is) r =
     (case shape_ir L st i r of
        Inl e \<Rightarrow> Inl e
      | Inr (v, st') \<Rightarrow>
          (case shape_ir_all L st' is r of
             Inl e \<Rightarrow> Inl e
           | Inr (vs, st'') \<Rightarrow> Inr (v # vs, st'')))"

definition shape_tuple :: "lib \<Rightarrow> state \<Rightarrow> var \<Rightarrow> error + var list option \<times> state" where
  "shape_tuple L st r =
     (if \<not> HasShape (vtype r) then Inr (None, st)
      else (case shape_ir_all L st [0..<length (static_shape (vtype r))] r of
              Inl e \<Rightarrow> Inl e
            | Inr (vs, st') \<Rightarrow> Inr (Some vs, st')))"

text \<open>
  \<open>default_infer_shape\<close> ignores the input shapes; an AttributeError raised by
  \<open>shape_tuple\<close> gives the entry \<open>None\<close>.
\<close>

fun default_infer_shape_loop ::
  "lib \<Rightarrow> state \<Rightarrow> var list \<Rightarrow> error + var list option list \<times> state" where
  "default_infer_shape_loop L st [] = Inr ([], st)"
| "default_infer_shape_loop L st (r # rs) =
     (case (case shape_tuple L st r of
              Inl AttributeError \<Rightarrow> Inr (None, st)
            | Inl e \<Rightarrow> Inl e
            | Inr res \<Rightarrow> Inr res) of
        Inl e \<Rightarrow> Inl e
      | Inr (sh, st') \<Rightarrow>
          (case default_infer_shape_loop L st' rs of
             Inl e \<Rightarrow> Inl e
           | Inr (shs, st'') \<Rightarrow> Inr (sh # shs, st'')))"

definition default_infer_shape ::
  "lib \<Rightarrow> state \<Rightarrow> fgraph \<Rightarrow> apply_node \<Rightarrow> var list option list \<Rightarrow> error + shapes \<times> state" where
  "default_infer_shape L st fg node i_shapes =
     (case default_infer_shape_loop L st (outputs node) of
        Inl e \<Rightarrow> Inl e
      | Inr (shs, st') \<Rightarrow> Inr (map (map_option (map SymVar)) shs, st'))"

subsection \<open>get_node_infer_shape\<close>

text \<open>\<open>[self.shape_of[r] for r in node.inputs]\<close>\<close>

fun input_shapes :: "state \<Rightarrow> var list \<Rightarrow> error + var list option list" where
  "input_shapes st [] = Inr []"
| "input_shapes st (r # rs) =
     (case shape_of st (vid r) of
        None \<Rightarrow> Inl KeyError
      | Some sh \<Rightarrow>
          (case input_shapes st rs of
             Inl e \<Rightarrow> Inl e
           | Inr shs \<Rightarrow> Inr (sh # shs)))"

text \<open>
  The exceptions that \<open>except Exception\<close> catches: all of the model's errors but
  KeyboardInterrupt, which derives from BaseException only.
\<close>

fun is_Exception :: "error \<Rightarrow> bool" where
  "is_Exception KeyboardInterrupt = False"
| "is_Exception e = True"

definition infer_shape_failed :: string where
  "infer_shape_failed = ''Failed to infer_shape from Op''"

text \<open>
  The first \<open>try\<close> of \<open>get_node_infer_shape\<close> chooses the rule: \<open>node.op.infer_shape\<close>,
  or \<open>default_infer_shape\<close> when the operator has no such attribute. The second calls
  it. An input that is not in \<open>shape_of\<close> raises KeyError inside the second \<open>try\<close>; the
  handler for \<open>Exception\<close> then builds its message from the same lookup and raises
  KeyError itself.
\<close>

definition get_node_infer_shape ::
  "lib \<Rightarrow> state \<Rightarrow> fgraph \<Rightarrow> apply_node \<Rightarrow> error + shapes \<times> state" where
  "get_node_infer_shape L st fg node =
     (case input_shapes st (inputs node) of
        Inl e \<Rightarrow> Inl e
      | Inr i_shapes \<Rightarrow>
          (case (case infer_shape L (aop node) of
                   None \<Rightarrow> default_infer_shape L st fg node i_shapes
                 | Some shape_infer \<Rightarrow>
                     (case shape_infer fg node i_shapes of
                        Inl e \<Rightarrow> Inl e
                      | Inr o_shapes \<Rightarrow> Inr (o_shapes, st))) of
             Inr res \<Rightarrow> Inr res
           | Inl ShapeError \<Rightarrow> default_infer_shape L st fg node i_shapes
           | Inl NotImplementedError \<Rightarrow> Inl NotImplementedError
           | Inl e \<Rightarrow>
               if \<not> is_Exception e then Inl e
               else if on_shape_error L = ''raise'' then Inl (Exception infer_shape_failed)
               else default_infer_shape L (st\<lparr>warnings := warnings st @ [infer_shape_failed]\<rparr>)
                      fg node i_shapes))"

subsection \<open>get_shape\<close>

text \<open>
  The test of \<open>get_shape\<close> on a shape entry: it has an owner, the owner is a \<open>Shape_i\<close>
  and the owner's input is not among \<open>fgraph.variables\<close>.
\<close>

definition is_stale :: "fgraph \<Rightarrow> var \<Rightarrow> error + bool" where
  "is_stale fg v =
     (case owner v of
        None \<Rightarrow> Inr False
      | Some a \<Rightarrow>
          if \<not> is_Shape_i (aop a) then Inr False
          else (case inputs a of
                  [] \<Rightarrow> Inl IndexError
                | x # xs \<Rightarrow> Inr (vid x \<notin> variables fg)))"

text \<open>The loop over \<open>range(out.type.ndim)\<close> that fills \<open>merged_shps\<close> and \<open>changed\<close>.\<close>

fun merge_stale ::
  "fgraph \<Rightarrow> shape_elem list option \<Rightarrow> shape_elem list \<Rightarrow> nat list \<Rightarrow> bool
     \<Rightarrow> error + shape_elem list \<times> bool" where
  "merge_stale fg new_shps merged_shps [] changed = Inr (merged_shps, changed)"
| "merge_stale fg new_shps merged_shps (i # is) changed =
     (if \<not> i < length merged_shps then Inl IndexError
      else (case merged_shps ! i of
              PyInt n \<Rightarrow> Inl AttributeError
            | SymVar n_r \<Rightarrow>
                (case is_stale fg n_r of
                   Inl e \<Rightarrow> Inl e
                 | Inr False \<Rightarrow> merge_stale fg new_shps merged_shps is changed
                 | Inr True \<Rightarrow>
                     (case new_shps of
                        None \<Rightarrow> Inl (AssertionError [])
                      | Some ns \<Rightarrow>
                          if \<not> i < length ns then Inl IndexError
                          else merge_stale fg new_shps (merged_shps[i := ns ! i]) is True))))"

text \<open>The loop over \<open>zip(o_shapes, node.outputs)\<close>.\<close>

fun refresh_outputs ::
  "lib \<Rightarrow> fgraph \<Rightarrow> state \<Rightarrow> (shape_elem list option \<times> var) list \<Rightarrow> error + state" where
  "refresh_outputs L fg st [] = Inr st"
| "refresh_outputs L fg st ((new_shps, out) # rest) =
     (if \<not> HasShape (vtype out) then refresh_outputs L fg st rest
      else (case shape_of st (vid out) of
              None \<Rightarrow> Inl KeyError
            | Some None \<Rightarrow> Inl (AssertionError [])
            | Some (Some out_shape) \<Rightarrow>
                (case merge_stale fg new_shps (map SymVar out_shape)
                        [0..<length (static_shape (vtype out))] False of
                   Inl e \<Rightarrow> Inl e
                 | Inr (merged_shps, changed) \<Rightarrow>
                     if changed
                     then (case set_shape L st out (Some merged_shps) True of
                             Inl e \<Rightarrow> Inl e
                           | Inr st' \<Rightarrow> refresh_outputs L fg st' rest)
                     else refresh_outputs L fg st rest)))"

text \<open>\<open>self.shape_of[var][idx]\<close> with the assertion that the shape is not None.\<close>

definition tracked_dim :: "state \<Rightarrow> var \<Rightarrow> int \<Rightarrow> error + var" where
  "tracked_dim st v idx =
     (case shape_of st (vid v) of
        None \<Rightarrow> Inl KeyError
      | Some None \<Rightarrow> Inl (AssertionError [])
      | Some (Some var_shape) \<Rightarrow> py_index var_shape idx)"

text \<open>
  \<open>get_shape\<close> and its loop "recurse on inputs", which calls \<open>get_shape(fgraph, i, 0)\<close>
  on every input whose type is a \<open>HasShape\<close> and drops the result.
\<close>

fun get_shape :: "lib \<Rightarrow> fgraph \<Rightarrow> state \<Rightarrow> var \<Rightarrow> int \<Rightarrow> error + var \<times> state"
and get_shape_inputs :: "lib \<Rightarrow> fgraph \<Rightarrow> state \<Rightarrow> var list \<Rightarrow> error + state" where
  "get_shape L fg st (Constant i t d) idx =
     (case tracked_dim st (Constant i t d) idx of
        Inl e \<Rightarrow> Inl e
      | Inr var_idx_shape \<Rightarrow>
          (case is_stale fg var_idx_shape of
             Inl e \<Rightarrow> Inl e
           | Inr False \<Rightarrow> Inr (var_idx_shape, st)
           | Inr True \<Rightarrow> Inl (AssertionError [])))"
| "get_shape L fg st (FreeVar i t) idx =
     (case tracked_dim st (FreeVar i t) idx of
        Inl e \<Rightarrow> Inl e
      | Inr var_idx_shape \<Rightarrow>
          (case is_stale fg var_idx_shape of
             Inl e \<Rightarrow> Inl e
           | Inr False \<Rightarrow> Inr (var_idx_shape, st)
           | Inr True \<Rightarrow> Inl (AssertionError [])))"
| "get_shape L fg st (OutVar i t (Apply n f ins outs)) idx =
     (case tracked_dim st (OutVar i t (Apply n f ins outs)) idx of
        Inl e \<Rightarrow> Inl e
      | Inr var_idx_shape \<Rightarrow>
          (case is_stale fg var_idx_shape of
             Inl e \<Rightarrow> Inl e
           | Inr False \<Rightarrow> Inr (var_idx_shape, st)
           | Inr True \<Rightarrow>
               (case get_shape_inputs L fg st ins of
                  Inl e \<Rightarrow> Inl e
                | Inr st1 \<Rightarrow>
                    (case get_node_infer_shape L st1 fg (Apply n f ins outs) of
                       Inl e \<Rightarrow> Inl e
                     | Inr (o_shapes, st2) \<Rightarrow>
                         if length o_shapes \<noteq> length outs then Inl (AssertionError [])
                         else (case refresh_outputs L fg st2
                                      (zip o_shapes (outputs (Apply n f ins outs))) of
                                 Inl e \<Rightarrow> Inl e
                               | Inr st3 \<Rightarrow>
                                   (case tracked_dim st3 (OutVar i t (Apply n f ins outs)) idx of
                                      Inl e \<Rightarrow> Inl e
                                    | Inr v \<Rightarrow> Inr (v, st3)))))))"
| "get_shape_inputs L fg st [] = Inr st"
| "get_shape_inputs L fg st (x # xs) =
     (if HasShape (vtype x)
      then (case get_shape L fg st x 0 of
              Inl e \<Rightarrow> Inl e
            | Inr (v, st') \<Rightarrow> get_shape_inputs L fg st' xs)
      else get_shape_inputs L fg st xs)"

subsection \<open>update_shape\<close>

text \<open>
  The first test of the merge: \<open>ps\<close> has an owner, the owner is a \<open>Shape_i\<close> of the
  dimension \<open>i\<close> at hand, and its input is \<open>r\<close> or \<open>other_r\<close>.
\<close>

definition uninformative :: "var \<Rightarrow> var \<Rightarrow> nat \<Rightarrow> var \<Rightarrow> error + bool" where
  "uninformative r other_r i ps =
     (case owner ps of
        None \<Rightarrow> Inr False
      | Some a \<Rightarrow>
          (case aop a of
             Shape_i k \<Rightarrow>
               if k \<noteq> int i then Inr False
               else (case inputs a of
                       [] \<Rightarrow> Inl IndexError
                     | x # xs \<Rightarrow> Inr (vid x = vid r \<or> vid x = vid other_r))
           | _ \<Rightarrow> Inr False))"

text \<open>
  The loop \<open>for i, ps in enumerate(other_shape)\<close>; \<open>i\<close> is the index of the head of the
  remaining part of \<open>other_shape\<close>.
\<close>

fun merge_shapes ::
  "lib \<Rightarrow> var \<Rightarrow> var \<Rightarrow> var list option \<Rightarrow> nat \<Rightarrow> var list \<Rightarrow> error + var list" where
  "merge_shapes L r other_r r_shape i [] = Inr []"
| "merge_shapes L r other_r r_shape i (ps # rest) =
     (case (case r_shape of
              None \<Rightarrow> Inr ps
            | Some rsh \<Rightarrow>
                if \<not> i < length rsh then Inl IndexError
                else (case uninformative r other_r i ps of
                        Inl e \<Rightarrow> Inl e
                      | Inr u \<Rightarrow>
                          Inr (if u then rsh ! i
                               else if is_Constant (rsh ! i) then rsh ! i
                               else if is_Constant ps then ps
                               else if vid ps = vid (rsh ! i) then rsh ! i
                               else if vid (rsh ! i) \<in> set (map vid (ancestors L [ps]))
                               then rsh ! i
                               else ps))) of
        Inl e \<Rightarrow> Inl e
      | Inr m \<Rightarrow>
          (case merge_shapes L r other_r r_shape (Suc i) rest of
             Inl e \<Rightarrow> Inl e
           | Inr ms \<Rightarrow> Inr (m # ms)))"

text \<open>
  The assertion of \<open>update_shape\<close>, evaluated for \<open>i\<close> in \<open>range(r.type.ndim)\<close> until
  the first index where it is false.
\<close>

definition one_at :: "lib \<Rightarrow> bool \<Rightarrow> var list \<Rightarrow> nat \<Rightarrow> error + bool" where
  "one_at L only_process_constants shape_vars i =
     (if \<not> i < length shape_vars then Inl IndexError
      else Inr (lscalar_one_equals (shape_vars ! i)
                \<or> lscalar_one_equals
                     (extract_constant L only_process_constants (shape_vars ! i))))"

fun update_shape_assert ::
  "lib \<Rightarrow> var \<Rightarrow> var \<Rightarrow> var list \<Rightarrow> nat list \<Rightarrow> error + bool" where
  "update_shape_assert L r other_r merged_shape [] = Inr True"
| "update_shape_assert L r other_r merged_shape (i # is) =
     (case (if \<not> HasShape (vtype r) then Inr True
            else if static_shape (vtype r) ! i = Some 1 then one_at L True merged_shape i
            else (case vtype other_r of
                    TensorT dt sh \<Rightarrow>
                      if \<not> i < length sh then Inl IndexError
                      else if sh ! i \<noteq> Some 1 then Inr True
                      else one_at L True merged_shape i
                  | _ \<Rightarrow> Inl AttributeError)) of
        Inl e \<Rightarrow> Inl e
      | Inr False \<Rightarrow> Inr False
      | Inr True \<Rightarrow> update_shape_assert L r other_r merged_shape is)"

definition same_node :: "var \<Rightarrow> var \<Rightarrow> bool" where
  "same_node other_r r =
     (case (owner other_r, owner r) of
        (Some a, Some b) \<Rightarrow> map vid (inputs a) = map vid (inputs b) \<and> aop a = aop b
      | _ \<Rightarrow> False)"

definition update_shape :: "lib \<Rightarrow> state \<Rightarrow> var \<Rightarrow> var \<Rightarrow> error + state" where
  "update_shape L st r other_r =
     (case shape_of st (vid other_r) of
        None \<Rightarrow> Inl (AssertionError ''other_r not in shape_of'')
      | Some None \<Rightarrow> Inr st
      | Some (Some other_shape) \<Rightarrow>
          (case shape_of st (vid r) of
             None \<Rightarrow> set_shape L st r (Some (map SymVar other_shape)) False
           | Some r_shape \<Rightarrow>
               if same_node other_r r then Inr st
               else (case merge_shapes L r other_r r_shape 0 other_shape of
                       Inl e \<Rightarrow> Inl e
                     | Inr merged_shape \<Rightarrow>
                         (case ndim (vtype r) of
                            None \<Rightarrow> Inl AttributeError
                          | Some nd \<Rightarrow>
                              (case update_shape_assert L r other_r merged_shape [0..<nd] of
                                 Inl e \<Rightarrow> Inl e
                               | Inr False \<Rightarrow> Inl (AssertionError [])
                               | Inr True \<Rightarrow>
                                   Inr (st\<lparr>shape_of := (shape_of st)(vid r \<mapsto> Some merged_shape),
                                           shape_of_reverse_index :=
                                             reverse_add_all (shape_of_reverse_index st)
                                               merged_shape r\<rparr>))))))"

subsection \<open>set_shape_i and init_r\<close>





subsection \<open>on_change_input\<close>








subsection \<open>same_shape\<close>

text \<open>
  Modelled from the spec: the graph built with \<open>FunctionGraph(outputs, clone=True)\<close>,
  rewritten with \<open>rewrite_graph\<close> and read back through \<open>outputs\<close>; this code is not in
  the sources at hand. The spec: the scalars are folded "through constant propagation (an
  isolated, disposable evaluation of just those scalar expressions)". Every output is
  folded on its own, by the constant folding of the library.
\<close>

definition canonical_outputs :: "lib \<Rightarrow> var list \<Rightarrow> var list" where
  "canonical_outputs L outs = map (fold_constants L) outs"

definition restrict_dim :: "var list \<Rightarrow> int option \<Rightarrow> error + var list" where
  "restrict_dim sx dim_x =
     (case dim_x of
        None \<Rightarrow> Inr sx
      | Some d \<Rightarrow> (case py_index sx d of Inl e \<Rightarrow> Inl e | Inr v \<Rightarrow> Inr [v]))"

definition same_shape ::
  "lib \<Rightarrow> state \<Rightarrow> var \<Rightarrow> var \<Rightarrow> int option \<Rightarrow> int option \<Rightarrow> error + bool" where
  "same_shape L st x y dim_x dim_y =
     (case shape_of st (vid x) of
        None \<Rightarrow> Inl KeyError
      | Some sx0 \<Rightarrow>
          (case shape_of st (vid y) of
             None \<Rightarrow> Inl KeyError
           | Some sy0 \<Rightarrow>
               (case (sx0, sy0) of
                  (Some sx1, Some sy1) \<Rightarrow>
                    (case restrict_dim sx1 dim_x of
                       Inl e \<Rightarrow> Inl e
                     | Inr sx \<Rightarrow>
                         (case restrict_dim sy1 dim_y of
                            Inl e \<Rightarrow> Inl e
                          | Inr sy \<Rightarrow>
                              if length sx \<noteq> length sy then Inr False
                              else (let canon_shapes = canonical_outputs L (sx @ sy);
                                        sx' = take (length sx) canon_shapes;
                                        sy' = drop (length sx) canon_shapes
                                    in Inr (list_all (\<lambda>(dx, dy). equal_computations L dx dy)
                                              (zip sx' sy')))))
                | _ \<Rightarrow> Inr False)))"

subsection \<open>The rewrites local_reshape_chain and local_track_shape_i\<close>

text \<open>
  Modelled from the spec: \<open>check_chain(node, Reshape, Reshape)\<close>, whose code is not in
  the sources at hand. The spec's pattern is \<open>reshape(reshape(x, s1), s2)\<close>: the node is
  a reshape and its first input is the output of a reshape that has an input.
\<close>

definition check_chain :: "apply_node \<Rightarrow> bool" where
  "check_chain node =
     (is_Reshape (aop node) \<and>
      (case inputs node of
         [] \<Rightarrow> False
       | r # rs \<Rightarrow>
           (case owner r of
              None \<Rightarrow> False
            | Some inner \<Rightarrow> is_Reshape (aop inner) \<and> inputs inner \<noteq> [])))"

text \<open>\<open>type.shape\<close>, an attribute of the types that are a \<open>HasShape\<close>.\<close>

fun type_shape :: "ttype \<Rightarrow> error + int option list" where
  "type_shape (TensorT dt sh) = Inr sh"
| "type_shape t = Inl AttributeError"

text \<open>
  \<open>node.op(x, shape)\<close>: the type of the new output is computed by the operator's
  \<open>make_node\<close>, a parameter of the model.
\<close>

definition op_call :: "lib \<Rightarrow> state \<Rightarrow> op \<Rightarrow> var \<Rightarrow> var \<Rightarrow> error + var \<times> state" where
  "op_call L st f x shp =
     (case reshape_output_type L f x shp of
        Inl e \<Rightarrow> Inl e
      | Inr t \<Rightarrow>
          (case fresh st of
             (n, st1) \<Rightarrow>
               (case fresh st1 of
                  (out, st2) \<Rightarrow> Inr (OutVar out t (Apply n f [x, shp] [(out, t)]), st2))))"

text \<open>
  The test that ends \<open>local_reshape_chain\<close>, with the comparison \<open>s1 == s1\<close> of the
  source.
\<close>

definition broadcast_pattern_kept :: "ttype \<Rightarrow> ttype \<Rightarrow> error + bool" where
  "broadcast_pattern_kept rval_type out_type =
     (case (ndim rval_type, ndim out_type) of
        (Some n1, Some n2) \<Rightarrow>
          if n1 \<noteq> n2 then Inr False
          else (case type_shape rval_type of
                  Inl e \<Rightarrow> Inl e
                | Inr sh1 \<Rightarrow>
                    (case type_shape out_type of
                       Inl e \<Rightarrow> Inl e
                     | Inr sh2 \<Rightarrow>
                         Inr (list_all (\<lambda>(s1, s2). (s1 = Some 1 \<or> s2 = Some 1) \<longrightarrow> s1 = s1)
                                (zip sh1 sh2))))
      | _ \<Rightarrow> Inl AttributeError)"

text \<open>The rewrite returns a list of replacements, or \<open>None\<close> where the source returns False.\<close>

definition local_reshape_chain ::
  "lib \<Rightarrow> state \<Rightarrow> apply_node \<Rightarrow> error + var list option \<times> state" where
  "local_reshape_chain L st node =
     (if \<not> check_chain node then Inr (None, st)
      else (case inputs node of
              r # shp # rest \<Rightarrow>
                (case owner r of
                   Some (Apply n f (x # xs) outs) \<Rightarrow>
                     (case op_call L st (aop node) x shp of
                        Inl e \<Rightarrow> Inl e
                      | Inr (rval, st') \<Rightarrow>
                          (case outputs node of
                             [] \<Rightarrow> Inl IndexError
                           | out # os \<Rightarrow>
                               (case broadcast_pattern_kept (vtype rval) (vtype out) of
                                  Inl e \<Rightarrow> Inl e
                                | Inr True \<Rightarrow> Inr (Some [rval], st')
                                | Inr False \<Rightarrow> Inr (None, st'))))
                 | _ \<Rightarrow> Inl IndexError)
            | _ \<Rightarrow> Inl IndexError))"

text \<open>
  \<open>local_track_shape_i\<close>: \<open>sf\<close> is \<open>fgraph.shape_feature\<close>, \<open>None\<close> when the graph has no
  such attribute. The feature is returned as the rewrite leaves it.
\<close>

definition local_track_shape_i ::
  "state option \<Rightarrow> apply_node \<Rightarrow> error + var list option \<times> state option" where
  "local_track_shape_i sf node =
     (case aop node of
        Shape_i i \<Rightarrow>
          (case sf of
             None \<Rightarrow> Inr (None, sf)
           | Some shape_feature \<Rightarrow>
               (case scheduled shape_feature (nid node) of
                  None \<Rightarrow> Inr (None, sf)
                | Some replacement \<Rightarrow>
                    (case shape_of shape_feature (vid replacement) of
                       None \<Rightarrow> Inl KeyError
                     | Some None \<Rightarrow> Inl TypeError
                     | Some (Some sh) \<Rightarrow>
                         (case py_index sh i of
                            Inl e \<Rightarrow> Inl e
                          | Inr v \<Rightarrow> Inr (Some [v], sf)))))
      | _ \<Rightarrow> Inr (None, sf))"

section \<open>Concrete values used in the examples\<close>

text \<open>
  A walk through \<open>owner.inputs\<close> that yields the variable it starts from first, as the
  library's \<open>ancestors\<close> does (it is inclusive).
\<close>

fun walk :: "var \<Rightarrow> var list" where
  "walk (Constant i t d) = [Constant i t d]"
| "walk (FreeVar i t) = [FreeVar i t]"
| "walk (OutVar i t (Apply n f ins outs)) =
     OutVar i t (Apply n f ins outs) # concat (map walk ins)"

definition lib0 :: lib where
  "lib0 = \<lparr>get_scalar_constant_value =
             (\<lambda>e. case e of PyInt n \<Rightarrow> Some n
                   | SymVar (Constant i t (Scalar n)) \<Rightarrow> Some n
                   | _ \<Rightarrow> None),
           extract_constant = (\<lambda>only_process_constants v. v),
           get_idx_list = (\<lambda>a. []),
           infer_shape = (\<lambda>f. None),
           on_shape_error = ''warn'',
           ancestors = (\<lambda>vs. concat (map walk vs)),
           fold_constants = (\<lambda>v. v),
           equal_computations = (\<lambda>a b. a = b),
           reshape_output_type =
             (\<lambda>f x shp. case f of Reshape k \<Rightarrow> Inr (TensorT ''float64'' (replicate k None))
                         | _ \<Rightarrow> Inl TypeError)\<rparr>"

definition fg0 :: fgraph where
  "fg0 = \<lparr>variables = {5, 6}, clients = [5 \<mapsto> [], 6 \<mapsto> []]\<rparr>"

definition x0 :: var where
  "x0 = FreeVar 5 (TensorT ''float64'' [None, Some 5])"

definition x1 :: var where
  "x1 = FreeVar 6 (TensorT ''float64'' [Some 1, None])"

definition c1 :: var where
  "c1 = Constant 7 lscalar (Scalar 1)"

definition st_empty :: state where
  "st_empty = \<lparr>shape_of = Map.empty, scheduled = Map.empty,
               shape_of_reverse_index = Map.empty, last_id = 10, warnings = []\<rparr>"

definition st0 :: state where
  "st0 = \<lparr>shape_of = [5 \<mapsto> None], scheduled = Map.empty,
          shape_of_reverse_index = Map.empty, last_id = 10, warnings = []\<rparr>"

text \<open>The state that \<open>set_shape(x1, (1, c1))\<close> makes of \<open>st0\<close>.\<close>

definition st9 :: state where
  "st9 = \<lparr>shape_of = [5 \<mapsto> None, 6 \<mapsto> Some [Constant 11 lscalar (Scalar 1), c1]],
          scheduled = Map.empty,
          shape_of_reverse_index = [11 \<mapsto> [x1], 7 \<mapsto> [x1]],
          last_id = 11, warnings = []\<rparr>"

definition T2 :: ttype where
  "T2 = TensorT ''float64'' [None, None]"

definition add1 :: apply_node where
  "add1 = Apply 20 (OtherOp ''add'') [x0, x1] [(21, T2)]"

definition y1 :: var where
  "y1 = OutVar 21 T2 add1"

definition add2 :: apply_node where
  "add2 = Apply 22 (OtherOp ''add'') [x0, x1] [(23, T2)]"

definition y2 :: var where
  "y2 = OutVar 23 T2 add2"

text \<open>The accessor \<open>Shape_i(0)(x0)\<close>, a node of the graph, and its output.\<close>

definition shp0 :: apply_node where
  "shp0 = Apply 30 (Shape_i 0) [x0] [(31, lscalar)]"

definition s0 :: var where
  "s0 = OutVar 31 lscalar shp0"

definition n0 :: var where
  "n0 = FreeVar 40 lscalar"

definition n1 :: var where
  "n1 = FreeVar 41 lscalar"

definition st1 :: state where
  "st1 = \<lparr>shape_of = [5 \<mapsto> None, 21 \<mapsto> Some [n0, n1], 23 \<mapsto> Some [n1, n0]],
          scheduled = [30 \<mapsto> y1],
          shape_of_reverse_index = Map.empty, last_id = 50, warnings = []\<rparr>"

definition z1 :: var where
  "z1 = FreeVar 24 T2"

definition st2 :: state where
  "st2 = \<lparr>shape_of = [21 \<mapsto> Some [n0, n1], 24 \<mapsto> Some [n1, c1]],
          scheduled = Map.empty,
          shape_of_reverse_index = Map.empty, last_id = 50, warnings = []\<rparr>"






section \<open>The merge priority of update_shape, as the spec words it\<close>

text \<open>
  The candidate \<open>ps\<close> is "the size of dimension \<open>i\<close> of \<open>v\<close>": its owner is a \<open>Shape_i\<close>
  of the axis \<open>i\<close> applied to \<open>v\<close>.
\<close>

definition is_accessor_of :: "var \<Rightarrow> nat \<Rightarrow> var \<Rightarrow> bool" where
  "is_accessor_of ps i v =
     (case owner ps of
        None \<Rightarrow> False
      | Some a \<Rightarrow>
          aop a = Shape_i (int i) \<and> (case inputs a of [] \<Rightarrow> False | x # xs \<Rightarrow> vid x = vid v))"

text \<open>
  The priority (a) to (e) for one dimension: \<open>rs\<close> is the existing entry of \<open>r\<close> and
  \<open>ps\<close> the candidate from \<open>other_r\<close>.
\<close>

definition merge_priority :: "lib \<Rightarrow> var \<Rightarrow> var \<Rightarrow> nat \<Rightarrow> var \<Rightarrow> var \<Rightarrow> var" where
  "merge_priority L r other_r i rs ps =
     (if is_accessor_of ps i r \<or> is_accessor_of ps i other_r then rs
      else if is_Constant rs then rs
      else if is_Constant ps then ps
      else if vid ps = vid rs then rs
      else if vid rs \<in> vid ` set (ancestors L [ps]) then rs
      else ps)"


definition c5 :: var where
  "c5 = Constant 53 lscalar (Scalar 5)"




definition m0 :: var where
  "m0 = OutVar 55 lscalar (Apply 54 (OtherOp ''mul'') [s0, n0] [(55, lscalar)])"






definition st3 :: state where
  "st3 = \<lparr>shape_of = [5 \<mapsto> None, 50 \<mapsto> Some [s0, c5], 51 \<mapsto> Some [n0, c5],
                      52 \<mapsto> Some [m0, c5], 58 \<mapsto> None],
          scheduled = Map.empty,
          shape_of_reverse_index = Map.empty, last_id = 60, warnings = []\<rparr>"


section \<open>The outcome of on_change_input for one accessor, as the spec words it\<close>









section \<open>Values for the reshape chain\<close>

definition xr :: var where
  "xr = FreeVar 90 (TensorT ''float64'' [None, None, None])"

definition sh_a :: var where
  "sh_a = FreeVar 91 (TensorT ''int64'' [Some 2])"

definition sh_b :: var where
  "sh_b = FreeVar 92 (TensorT ''int64'' [Some 2])"

definition inner_reshape :: apply_node where
  "inner_reshape = Apply 93 (Reshape 2) [xr, sh_a] [(94, T2)]"

definition outer_reshape :: apply_node where
  "outer_reshape =
     Apply 95 (Reshape 2) [OutVar 94 T2 inner_reshape, sh_b]
       [(96, TensorT ''float64'' [Some 5, None])]"

definition lib3 :: lib where
  "lib3 = lib0\<lparr>reshape_output_type :=
                 (\<lambda>f x shp. Inr (TensorT ''float64'' [Some 3, None]))\<rparr>"

definition lib4 :: lib where
  "lib4 = lib0\<lparr>reshape_output_type :=
                 (\<lambda>f x shp. Inr (TensorT ''float64'' [None]))\<rparr>"

text \<open>
  The comparison that the comment in \<open>local_reshape_chain\<close> describes and that
  \<open>local_useless_unbroadcast\<close> makes with \<open>s1 == s2\<close>: the two static shapes agree in
  every dimension where either is 1.
\<close>

definition broadcast_pattern_agrees :: "int option list \<Rightarrow> int option list \<Rightarrow> bool" where
  "broadcast_pattern_agrees sh1 sh2 =
     list_all (\<lambda>(s1, s2). (s1 = Some 1 \<or> s2 = Some 1) \<longrightarrow> s1 = s2) (zip sh1 sh2)"


section \<open>Libraries with an inference rule, and more states\<close>



definition lib_ni :: lib where
  "lib_ni = lib0\<lparr>infer_shape := (\<lambda>f. Some (\<lambda>fg node i_shapes. Inl NotImplementedError))\<rparr>"

definition lib_se :: lib where
  "lib_se = lib0\<lparr>infer_shape := (\<lambda>f. Some (\<lambda>fg node i_shapes. Inl ShapeError))\<rparr>"

definition lib_te :: lib where
  "lib_te = lib0\<lparr>infer_shape := (\<lambda>f. Some (\<lambda>fg node i_shapes. Inl TypeError))\<rparr>"

definition lib_ok :: lib where
  "lib_ok = lib0\<lparr>infer_shape :=
                   (\<lambda>f. Some (\<lambda>fg node i_shapes. Inr [Some [SymVar n0, PyInt 5]]))\<rparr>"

definition lib_te_raise :: lib where
  "lib_te_raise = lib_te\<lparr>on_shape_error := ''raise''\<rparr>"

definition st6 :: state where
  "st6 = \<lparr>shape_of = [5 \<mapsto> Some [n0, c1], 6 \<mapsto> None, 21 \<mapsto> Some [n0]],
          scheduled = Map.empty,
          shape_of_reverse_index = Map.empty, last_id = 50, warnings = []\<rparr>"

definition st5 :: state where
  "st5 = \<lparr>shape_of = [5 \<mapsto> Some [n0, c1], 6 \<mapsto> Some [c1, n1]],
          scheduled = Map.empty,
          shape_of_reverse_index = Map.empty, last_id = 50, warnings = []\<rparr>"

section \<open>Properties of set_shape and get_shape\<close>


text \<open>A new constant is an int64 scalar whose identity is not that of the singleton.\<close>

lemma tensor_constant_Inr:
  "tensor_constant st n = Inr (v, st') \<Longrightarrow>
   \<exists>c d. v = Constant c lscalar (Scalar d) \<and> int64_data n = Inr d \<and> c \<noteq> 0"
  by (auto simp: tensor_constant_def fresh_def split: sum.splits)

lemma set_shape_loop_length:
  "set_shape_loop L st sh sl = Inr (vs, st') \<Longrightarrow> length vs = length sl"
proof (induction sl arbitrary: st sh vs)
  case Nil
  then show ?case by simp
next
  case (Cons s_i s)
  then show ?case
    by (auto split: sum.splits prod.splits)
qed

text \<open>A dimension that the static type pins is recorded as a new constant of that size.\<close>

lemma set_shape_loop_pinned:
  "set_shape_loop L st (Some shl) sl = Inr (vs, st') \<Longrightarrow> i < length sl \<Longrightarrow>
   i < length shl \<Longrightarrow> shl ! i = Some n \<Longrightarrow>
   \<exists>c d. vs ! i = Constant c lscalar (Scalar d) \<and> int64_data n = Inr d \<and> c \<noteq> 0"
proof (induction sl arbitrary: st shl vs i)
  case Nil
  then show ?case by simp
next
  case (Cons s_i s)
  from Cons.prems(3) obtain d ds where shl: "shl = d # ds"
    by (cases shl) auto
  from Cons.prems(1) shl obtain v st1 vs1 where
    hd: "(case d of Some m \<Rightarrow> tensor_constant st m | None \<Rightarrow> to_symbolic_int L st s_i)
           = Inr (v, st1)"
    and tl: "set_shape_loop L st1 (Some ds) s = Inr (vs1, st')"
    and vs: "vs = v # vs1"
    by (auto split: sum.splits prod.splits option.splits)
  show ?case
  proof (cases i)
    case 0
    with Cons.prems(4) shl hd have "tensor_constant st n = Inr (v, st1)" by simp
    from tensor_constant_Inr [OF this] vs 0 show ?thesis by simp
  next
    case (Suc j)
    with Cons.prems shl have "j < length s" "j < length ds" "ds ! j = Some n"
      by auto
    from Cons.IH [OF tl this] vs Suc show ?thesis by simp
  qed
qed

text \<open>
  For a dimension that is not pinned, the Python integer 1 is recorded as the singleton
  and a variable without an owner is recorded as it is.
\<close>

lemma set_shape_loop_unpinned:
  "set_shape_loop L st sh sl = Inr (vs, st') \<Longrightarrow> i < length sl \<Longrightarrow>
   (case sh of None \<Rightarrow> True | Some shl \<Rightarrow> i < length shl \<and> shl ! i = None) \<Longrightarrow>
   (sl ! i = PyInt 1 \<longrightarrow> vs ! i = lscalar_one)
   \<and> (\<forall>v. sl ! i = SymVar v \<and> owner v = None \<longrightarrow> vs ! i = v)"
proof (induction sl arbitrary: st sh vs i)
  case Nil
  then show ?case by simp
next
  case (Cons s_i s)
  show ?case
  proof (cases i)
    case 0
    with Cons.prems show ?thesis
      by (auto simp: check_int_scalar_def
          split: sum.splits prod.splits option.splits list.splits if_splits)
  next
    case (Suc j)
    from Cons.prems(1) obtain v st1 vs1 where
      tl: "set_shape_loop L st1 (map_option tl sh) s = Inr (vs1, st')"
      and vs: "vs = v # vs1"
      by (auto split: sum.splits prod.splits)
    from Cons.prems Suc have a: "j < length s" by auto
    from Cons.prems(3) Suc have b:
      "(case map_option tl sh of None \<Rightarrow> True | Some shl \<Rightarrow> j < length shl \<and> shl ! j = None)"
      by (cases sh) (auto simp: nth_tl)
    from Cons.IH [OF tl a b] vs Suc show ?thesis by simp
  qed
qed



text \<open>What a successful \<open>set_shape\<close> with a shape that is not None records.\<close>

lemma set_shape_Some:
  assumes "set_shape L st r (Some sl) override = Inr st'"
  shows "\<exists>vs st1. set_shape_loop L st
                   (if HasShape (vtype r) then Some (static_shape (vtype r)) else None) sl
                 = Inr (vs, st1)
               \<and> ndim (vtype r) = Some (length sl)
               \<and> ones_canonical L r vs
               \<and> shape_of st' (vid r) = Some (Some vs)"
  using assms
  by (auto simp: set_shape_def split: if_splits option.splits sum.splits prod.splits)

section \<open>Lemmas on the merge of update_shape\<close>

lemma uninformative_accessor:
  "uninformative r other_r i ps = Inr u \<Longrightarrow>
   u = (is_accessor_of ps i r \<or> is_accessor_of ps i other_r)"
  by (auto simp: uninformative_def is_accessor_of_def
      split: option.splits op.splits list.splits if_splits)

lemma merge_shapes_priority:
  "merge_shapes L r other_r (Some rsh) k pss = Inr ms \<Longrightarrow>
   length ms = length pss \<and>
   (\<forall>j < length pss. ms ! j = merge_priority L r other_r (k + j) (rsh ! (k + j)) (pss ! j))"
proof (induction pss arbitrary: k ms)
  case Nil
  then show ?case by simp
next
  case (Cons ps rest)
  from Cons.prems obtain u where u: "uninformative r other_r k ps = Inr u"
    by (auto split: if_splits sum.splits)
  define m where "m = (if u then rsh ! k
                       else if is_Constant (rsh ! k) then rsh ! k
                       else if is_Constant ps then ps
                       else if vid ps = vid (rsh ! k) then rsh ! k
                       else if vid (rsh ! k) \<in> set (map vid (ancestors L [ps])) then rsh ! k
                       else ps)"
  from Cons.prems u obtain ms1 where
    tl: "merge_shapes L r other_r (Some rsh) (Suc k) rest = Inr ms1"
    and ms0: "ms = m # ms1"
    unfolding m_def by (auto split: if_splits sum.splits)
  from uninformative_accessor [OF u] have "m = merge_priority L r other_r k (rsh ! k) ps"
    unfolding m_def merge_priority_def by simp
  with ms0 have ms: "ms = merge_priority L r other_r k (rsh ! k) ps # ms1" by simp
  from Cons.IH [OF tl] have ih: "length ms1 = length rest"
    "\<And>j. j < length rest \<Longrightarrow>
       ms1 ! j = merge_priority L r other_r (Suc k + j) (rsh ! (Suc k + j)) (rest ! j)"
    by auto
  show ?case
  proof (intro conjI allI impI)
    show "length ms = length (ps # rest)" using ms ih(1) by simp
  next
    fix j assume "j < length (ps # rest)"
    then show "ms ! j = merge_priority L r other_r (k + j) (rsh ! (k + j)) ((ps # rest) ! j)"
      using ms ih by (cases j) auto
  qed
qed







text \<open>
  C8: without \<open>override\<close>, \<open>set_shape\<close> fails on a value that already has an entry in
  \<open>shape_of\<close> (so it replaces an entry only when \<open>override\<close> is true); and it fails,
  with the error on the number of dimensions, when the shape is not None and its
  length differs from the declared rank of the value.
\<close>

theorem set_shape_preconditions:
  "(vid r \<in> dom (shape_of st) \<longrightarrow>
      set_shape L st r s False = Inl (AssertionError ''r already in shape_of''))
   \<and> (ndim (vtype r) = Some nd \<and> nd \<noteq> length sl \<longrightarrow>
        (\<exists>e. set_shape L st r (Some sl) override = Inl e))
   \<and> (ndim (vtype r) = Some nd \<and> nd \<noteq> length sl \<and> (override \<or> vid r \<notin> dom (shape_of st)) \<longrightarrow>
        set_shape L st r (Some sl) override =
          Inl (AssertionError ''A shape with len(s) dimensions was inferred''))"
  by (auto simp: set_shape_def)

theorem set_shape_preconditions_witness:
  "vid x0 \<in> dom (shape_of st0)
   \<and> ndim (vtype x0) = Some 2 \<and> 2 \<noteq> length [PyInt 3]
   \<and> set_shape lib0 st0 x0 (Some [PyInt 3]) False = Inl (AssertionError ''r already in shape_of'')
   \<and> set_shape lib0 st0 x0 (Some [PyInt 3]) True =
          Inl (AssertionError ''A shape with len(s) dimensions was inferred'')"
  using set_shape_preconditions [of x0 st0 lib0 "Some [PyInt 3]" 2 "[PyInt 3]" True]
  by (simp add: x0_def st0_def)


section \<open>The literal 1 in the entries of shape_of\<close>

text \<open>
  C9 (amended): in a tuple that \<open>set_shape\<close> records, the entry of a dimension that the
  static type pins to 1 equals the literal 1 (\<open>lscalar_one.equals\<close> holds of it) and is
  a new constant object, not the singleton \<open>lscalar_one\<close>; for a dimension that the
  type does not pin, the Python integer 1 is recorded as the singleton itself, and a
  variable without an owner is recorded as it is.
\<close>

theorem set_shape_ones:
  assumes "set_shape L st r (Some sl) override = Inr st'"
  shows "\<exists>tup. shape_of st' (vid r) = Some (Some tup) \<and> length tup = length sl \<and>
     (\<forall>i < length sl.
        (HasShape (vtype r) \<and> static_shape (vtype r) ! i = Some 1 \<longrightarrow>
           lscalar_one_equals (tup ! i) \<and> vid (tup ! i) \<noteq> vid lscalar_one)
        \<and> (\<not> (HasShape (vtype r) \<and> static_shape (vtype r) ! i \<noteq> None) \<longrightarrow>
             (sl ! i = PyInt 1 \<longrightarrow> tup ! i = lscalar_one)
             \<and> (\<forall>v. sl ! i = SymVar v \<and> owner v = None \<longrightarrow> tup ! i = v)))"
proof -
  from set_shape_Some [OF assms] obtain vs st1 where
    loop: "set_shape_loop L st
             (if HasShape (vtype r) then Some (static_shape (vtype r)) else None) sl
           = Inr (vs, st1)"
    and nd: "ndim (vtype r) = Some (length sl)"
    and rec: "shape_of st' (vid r) = Some (Some vs)"
    by auto
  have len: "length vs = length sl" by (rule set_shape_loop_length [OF loop])
  have hs: "HasShape (vtype r) \<Longrightarrow> length (static_shape (vtype r)) = length sl"
    using nd by (cases "vtype r") auto
  have one: "lscalar_one_equals (vs ! i) \<and> vid (vs ! i) \<noteq> vid lscalar_one"
    if "i < length sl" "HasShape (vtype r)" "static_shape (vtype r) ! i = Some 1" for i
  proof -
    from loop that(2) have "set_shape_loop L st (Some (static_shape (vtype r))) sl = Inr (vs, st1)"
      by simp
    from set_shape_loop_pinned [OF this that(1) _ that(3)] hs that
    obtain c d where "vs ! i = Constant c lscalar (Scalar d)" "int64_data 1 = Inr d" "c \<noteq> 0"
      by auto
    then show ?thesis by (simp add: int64_data_def lscalar_one_def)
  qed
  have free: "(sl ! i = PyInt 1 \<longrightarrow> vs ! i = lscalar_one)
             \<and> (\<forall>v. sl ! i = SymVar v \<and> owner v = None \<longrightarrow> vs ! i = v)"
    if "i < length sl" "\<not> (HasShape (vtype r) \<and> static_shape (vtype r) ! i \<noteq> None)" for i
    by (rule set_shape_loop_unpinned [OF loop that(1)]) (use that hs in auto)
  from one free rec len show ?thesis by blast
qed

theorem set_shape_ones_witness:
  "set_shape lib0 st0 x1 (Some [PyInt 1, SymVar c1]) False = Inr st9
   \<and> shape_of st9 (vid x1) = Some (Some [Constant 11 lscalar (Scalar 1), c1])
   \<and> HasShape (vtype x1) \<and> static_shape (vtype x1) ! 0 = Some 1
   \<and> lscalar_one_equals (Constant 11 lscalar (Scalar 1))
   \<and> vid (Constant 11 lscalar (Scalar 1)) \<noteq> vid lscalar_one
   \<and> static_shape (vtype x1) ! 1 = None \<and> owner c1 = None
   \<and> (\<exists>st' tup. set_shape lib0 st0 x1 (Some [PyInt 4, PyInt 1]) False = Inr st'
         \<and> shape_of st' (vid x1) = Some (Some tup) \<and> length tup = 2
         \<and> tup ! 1 = lscalar_one)"
proof -
  have a: "set_shape lib0 st0 x1 (Some [PyInt 1, SymVar c1]) False = Inr st9"
    by (simp add: set_shape_def x1_def st0_def st9_def c1_def tensor_constant_def fresh_def
        int64_data_def ones_canonical_def lscalar_def check_int_scalar_def integer_dtypes_def
        reverse_add_def)
  obtain st' where b: "set_shape lib0 st0 x1 (Some [PyInt 4, PyInt 1]) False = Inr st'"
    by (simp add: set_shape_def x1_def st0_def tensor_constant_def fresh_def int64_data_def
        ones_canonical_def lscalar_def)
  have c: "shape_of st9 (vid x1) = Some (Some [Constant 11 lscalar (Scalar 1), c1])"
    by (simp add: st9_def x1_def)
  from set_shape_ones [OF a] set_shape_ones [OF b] a b c show ?thesis
    by (auto simp: x1_def c1_def lscalar_one_def)
qed

text \<open>
  C9 as stated fails: for a dimension pinned to 1, \<open>set_shape\<close> records a new constant
  and not the singleton, and a variable that is a constant 1 is recorded as it is; both
  entries equal the literal 1 and neither is \<open>lscalar_one\<close> by reference.
\<close>

theorem singleton_one_counterexample:
  "static_shape (vtype x1) = [Some 1, None]
   \<and> set_shape lib0 st0 x1 (Some [PyInt 1, SymVar c1]) False = Inr st9
   \<and> shape_of st9 (vid x1) = Some (Some [Constant 11 lscalar (Scalar 1), c1])
   \<and> lscalar_one_equals (Constant 11 lscalar (Scalar 1)) \<and> lscalar_one_equals c1
   \<and> vid (Constant 11 lscalar (Scalar 1)) \<noteq> vid lscalar_one \<and> vid c1 \<noteq> vid lscalar_one"
  by (simp add: set_shape_def x1_def st0_def st9_def c1_def tensor_constant_def fresh_def
      int64_data_def ones_canonical_def lscalar_def lscalar_one_def check_int_scalar_def
      integer_dtypes_def reverse_add_def)

section \<open>Properties of update_shape\<close>

text \<open>
  C10: for a value \<open>r\<close> that is tracked, \<open>update_shape(r, other_r)\<close> returns the state as
  it was (all of it, so \<open>shape_of\<close> and the reverse index too) when the tracked shape of
  \<open>other_r\<close> is None, and when \<open>other_r\<close> is tracked and both values are owned by nodes
  with the same operator and the same list of inputs.
\<close>

theorem update_shape_frame:
  "vid r \<in> dom (shape_of st) \<Longrightarrow>
   (shape_of st (vid other_r) = Some None \<longrightarrow> update_shape L st r other_r = Inr st)
   \<and> (vid other_r \<in> dom (shape_of st) \<and> owner r = Some a \<and> owner other_r = Some b
        \<and> aop a = aop b \<and> map vid (inputs a) = map vid (inputs b) \<longrightarrow>
        update_shape L st r other_r = Inr st)"
  by (auto simp: update_shape_def same_node_def split: option.splits)

theorem update_shape_frame_witness:
  "vid y1 \<in> dom (shape_of st1) \<and> shape_of st1 (vid x0) = Some None
   \<and> update_shape lib0 st1 y1 x0 = Inr st1
   \<and> vid y2 \<in> dom (shape_of st1) \<and> owner y1 = Some add1 \<and> owner y2 = Some add2
   \<and> aop add1 = aop add2 \<and> map vid (inputs add1) = map vid (inputs add2)
   \<and> update_shape lib0 st1 y1 y2 = Inr st1"
  using update_shape_frame [of y1 st1 x0 lib0 add1 add2]
    update_shape_frame [of y1 st1 y2 lib0 add1 add2]
  by (simp add: y1_def y2_def x0_def st1_def add1_def add2_def)


text \<open>When the merge loop and the assertion of \<open>update_shape\<close> succeed.\<close>

lemma uninformative_total:
  "(case owner ps of None \<Rightarrow> True | Some a \<Rightarrow> inputs a \<noteq> []) \<Longrightarrow>
   \<exists>u. uninformative r other_r i ps = Inr u"
  by (auto simp: uninformative_def split: option.splits op.splits list.splits)

lemma merge_shapes_total:
  "k + length pss \<le> length rsh \<Longrightarrow>
   \<forall>ps \<in> set pss. (case owner ps of None \<Rightarrow> True | Some a \<Rightarrow> inputs a \<noteq> []) \<Longrightarrow>
   \<exists>ms. merge_shapes L r other_r (Some rsh) k pss = Inr ms"
proof (induction pss arbitrary: k)
  case Nil
  then show ?case by simp
next
  case (Cons ps rest)
  from Cons.prems(2) obtain u where u: "uninformative r other_r k ps = Inr u"
    using uninformative_total [of ps r other_r k] by auto
  from Cons.prems have "Suc k + length rest \<le> length rsh"
    "\<forall>ps \<in> set rest. (case owner ps of None \<Rightarrow> True | Some a \<Rightarrow> inputs a \<noteq> [])"
    by auto
  from Cons.IH [OF this] obtain ms where
    "merge_shapes L r other_r (Some rsh) (Suc k) rest = Inr ms" by blast
  with u Cons.prems(1) show ?case by simp
qed

lemma update_shape_assert_no_ones:
  "vtype r = TensorT dt shr \<Longrightarrow> vtype other_r = TensorT dt' sho \<Longrightarrow>
   length shr \<le> length sho \<Longrightarrow> Some 1 \<notin> set shr \<Longrightarrow> Some 1 \<notin> set sho \<Longrightarrow>
   \<forall>i \<in> set idxs. i < length shr \<Longrightarrow>
   update_shape_assert L r other_r merged idxs = Inr True"
proof (induction idxs)
  case Nil
  then show ?case by simp
next
  case (Cons i idxs)
  from Cons.prems have "i < length shr" "i < length sho" by auto
  with Cons.prems have "shr ! i \<noteq> Some 1" "sho ! i \<noteq> Some 1"
    by (metis nth_mem)+
  with Cons show ?case by simp
qed

lemma update_shape_returns:
  assumes "shape_of st (vid r) = Some (Some r_shape)"
    and "shape_of st (vid other_r) = Some (Some other_shape)"
    and "length other_shape \<le> length r_shape"
    and "\<forall>ps \<in> set other_shape. (case owner ps of None \<Rightarrow> True | Some a \<Rightarrow> inputs a \<noteq> [])"
    and "vtype r = TensorT dt shr" and "vtype other_r = TensorT dt' sho"
    and "length shr \<le> length sho" and "Some 1 \<notin> set shr" and "Some 1 \<notin> set sho"
  shows "\<exists>stv. update_shape L st r other_r = Inr stv"
proof -
  from merge_shapes_total [of 0 other_shape r_shape L r other_r] assms(3,4)
  obtain ms where m: "merge_shapes L r other_r (Some r_shape) 0 other_shape = Inr ms"
    by auto
  have a: "update_shape_assert L r other_r ms [0..<length shr] = Inr True"
    by (rule update_shape_assert_no_ones [OF assms(5,6,7,8,9)]) simp
  from assms(1,2,5) m a show ?thesis
    by (simp add: update_shape_def)
qed

text \<open>
  C2 (amended): when the tracked shapes of \<open>r\<close> and \<open>other_r\<close> are both tuples,
  \<open>update_shape(r, other_r)\<close> changes nothing if the two values are owned by nodes with
  the same operator and the same inputs; otherwise the tuple it records for \<open>r\<close> has, in
  every dimension, the entry chosen by the priority (a) to (e). It returns when the
  tuple of \<open>other_r\<close> is no longer than that of \<open>r\<close>, the owners of its entries have an
  input, and the static shapes of \<open>r\<close> and \<open>other_r\<close>, the second no shorter than the
  first, have no dimension of size 1.
\<close>

theorem update_shape_priority:
  assumes "shape_of st (vid r) = Some (Some r_shape)"
    and "shape_of st (vid other_r) = Some (Some other_shape)"
  shows "(same_node other_r r \<longrightarrow> update_shape L st r other_r = Inr st)
       \<and> (\<not> same_node other_r r \<and> update_shape L st r other_r = Inr st' \<longrightarrow>
            (\<exists>merged. shape_of st' (vid r) = Some (Some merged)
               \<and> length merged = length other_shape
               \<and> (\<forall>i < length other_shape.
                     merged ! i =
                       merge_priority L r other_r i (r_shape ! i) (other_shape ! i))))
       \<and> (length other_shape \<le> length r_shape
            \<and> (\<forall>ps \<in> set other_shape.
                  (case owner ps of None \<Rightarrow> True | Some a \<Rightarrow> inputs a \<noteq> []))
            \<and> vtype r = TensorT dt shr \<and> vtype other_r = TensorT dt' sho
            \<and> length shr \<le> length sho \<and> Some 1 \<notin> set shr \<and> Some 1 \<notin> set sho \<longrightarrow>
            (\<exists>stv. update_shape L st r other_r = Inr stv))"
proof -
  have "update_shape L st r other_r = Inr st" if "same_node other_r r"
    using that assms by (simp add: update_shape_def)
  moreover have "\<exists>merged. shape_of st' (vid r) = Some (Some merged)
               \<and> length merged = length other_shape
               \<and> (\<forall>i < length other_shape.
                     merged ! i =
                       merge_priority L r other_r i (r_shape ! i) (other_shape ! i))"
    if "\<not> same_node other_r r" "update_shape L st r other_r = Inr st'"
  proof -
    from that assms obtain merged where
      m: "merge_shapes L r other_r (Some r_shape) 0 other_shape = Inr merged"
      and rec: "shape_of st' (vid r) = Some (Some merged)"
      by (auto simp: update_shape_def split: sum.splits option.splits bool.splits)
    from merge_shapes_priority [OF m] rec show ?thesis by auto
  qed
  moreover have "\<exists>stv. update_shape L st r other_r = Inr stv"
    if "length other_shape \<le> length r_shape"
      "\<forall>ps \<in> set other_shape. (case owner ps of None \<Rightarrow> True | Some a \<Rightarrow> inputs a \<noteq> [])"
      "vtype r = TensorT dt shr" "vtype other_r = TensorT dt' sho"
      "length shr \<le> length sho" "Some 1 \<notin> set shr" "Some 1 \<notin> set sho"
    by (rule update_shape_returns [OF assms that])
  ultimately show ?thesis by blast
qed

theorem update_shape_priority_witness:
  "shape_of st2 (vid y1) = Some (Some [n0, n1])
   \<and> shape_of st2 (vid z1) = Some (Some [n1, c1])
   \<and> \<not> same_node z1 y1
   \<and> length [n1, c1] \<le> length [n0, n1] \<and> owner n1 = None \<and> owner c1 = None
   \<and> vtype y1 = TensorT ''float64'' [None, None] \<and> vtype z1 = TensorT ''float64'' [None, None]
   \<and> (\<exists>st'. update_shape lib0 st2 y1 z1 = Inr st'
         \<and> shape_of st' (vid y1) = Some (Some [n1, c1]))
   \<and> shape_of st1 (vid y1) = Some (Some [n0, n1])
   \<and> shape_of st1 (vid y2) = Some (Some [n1, n0])
   \<and> same_node y2 y1
   \<and> update_shape lib0 st1 y1 y2 = Inr st1"
proof -
  have a: "shape_of st2 (vid y1) = Some (Some [n0, n1])"
    and b: "shape_of st2 (vid z1) = Some (Some [n1, c1])"
    and c: "\<not> same_node z1 y1"
    by (simp_all add: st2_def y1_def z1_def same_node_def)
  have d: "shape_of st1 (vid y1) = Some (Some [n0, n1])"
    and e: "shape_of st1 (vid y2) = Some (Some [n1, n0])"
    and f: "same_node y2 y1"
    by (simp_all add: st1_def y1_def y2_def same_node_def add1_def add2_def)
  have t: "vtype y1 = TensorT ''float64'' [None, None]"
    "vtype z1 = TensorT ''float64'' [None, None]"
    and ow: "owner n1 = None" "owner c1 = None"
    by (simp_all add: y1_def z1_def T2_def n1_def c1_def)
  note th = update_shape_priority [OF a b, where L = lib0 and dt = "''float64''"
      and dt' = "''float64''" and shr = "[None, None]" and sho = "[None, None]"]
  from th t ow obtain st' where s: "update_shape lib0 st2 y1 z1 = Inr st'"
    by auto
  from th [where st' = st'] c s obtain merged where
    m: "shape_of st' (vid y1) = Some (Some merged)" "length merged = 2"
      "\<forall>i<2. merged ! i = merge_priority lib0 y1 z1 i ([n0, n1] ! i) ([n1, c1] ! i)"
    by auto
  from m(3) have "merged ! 0 = n1" "merged ! 1 = c1"
    by (simp_all add: merge_priority_def is_accessor_of_def n0_def n1_def c1_def lib0_def)
  with m(2) have "merged = [n1, c1]"
    by (cases merged; cases "tl merged") auto
  with m(1) s have g: "\<exists>st'. update_shape lib0 st2 y1 z1 = Inr st'
         \<and> shape_of st' (vid y1) = Some (Some [n1, c1])"
    by auto
  from update_shape_priority [OF d e, of lib0] f
  have h: "update_shape lib0 st1 y1 y2 = Inr st1" by blast
  from a b c d e f g h t ow show ?thesis by simp
qed

text \<open>
  C2 as stated fails: \<open>y1\<close> and \<open>y2\<close> are outputs of two nodes with the same operator and
  the same inputs and their tracked tuples differ; the priority gives the entry \<open>n1\<close> of
  \<open>y2\<close> for dimension 0, and \<open>update_shape(y1, y2)\<close> leaves the tuple of \<open>y1\<close> as it was.
\<close>

theorem update_shape_same_node_counterexample:
  "shape_of st1 (vid y1) = Some (Some [n0, n1])
   \<and> shape_of st1 (vid y2) = Some (Some [n1, n0])
   \<and> merge_priority lib0 y1 y2 0 n0 n1 = n1 \<and> n1 \<noteq> n0
   \<and> update_shape lib0 st1 y1 y2 = Inr st1"
  by (simp add: st1_def y1_def y2_def add1_def add2_def update_shape_def same_node_def
      merge_priority_def is_accessor_of_def n0_def n1_def lib0_def)

section \<open>Properties of the rewrites\<close>

text \<open>
  C7: for a \<open>Shape_i\<close> node that is a key of \<open>scheduled\<close>, \<open>local_track_shape_i\<close> returns
  the component of the recorded target's shape at the dimension of the node, and the
  feature it leaves is the one it found, so the entry stays in \<open>scheduled\<close>; for a
  \<open>Shape_i\<close> node that is not a key, it declines.
\<close>

theorem local_track_shape_i_scheduled:
  "aop node = Shape_i i \<Longrightarrow>
   (scheduled st (nid node) = Some target \<and> shape_of st (vid target) = Some (Some sh)
      \<and> py_index sh i = Inr v \<longrightarrow>
      local_track_shape_i (Some st) node = Inr (Some [v], Some st))
   \<and> (scheduled st (nid node) = None \<longrightarrow>
      local_track_shape_i (Some st) node = Inr (None, Some st))"
  by (auto simp: local_track_shape_i_def)

theorem local_track_shape_i_scheduled_witness:
  "aop shp0 = Shape_i 0 \<and> scheduled st1 (nid shp0) = Some y1
   \<and> shape_of st1 (vid y1) = Some (Some [n0, n1]) \<and> py_index [n0, n1] 0 = Inr n0
   \<and> local_track_shape_i (Some st1) shp0 = Inr (Some [n0], Some st1)
   \<and> aop shp0 = Shape_i 0 \<and> scheduled st0 (nid shp0) = None
   \<and> local_track_shape_i (Some st0) shp0 = Inr (None, Some st0)"
  using local_track_shape_i_scheduled [of shp0 0 st1 y1 "[n0, n1]" n0]
    local_track_shape_i_scheduled [of shp0 0 st0 y1 "[n0, n1]" n0]
  by (simp add: shp0_def st1_def st0_def y1_def py_index_def)

section \<open>The clients of a replaced value in on_change_input\<close>




























section \<open>The reshape chain\<close>

text \<open>
  C4 (amended): \<open>local_reshape_chain\<close> declines on a node that is not of the form
  \<open>reshape(reshape(x, s1), s2)\<close>; what it returns is \<open>reshape(x, s2)\<close>, a new node with
  the operator of the outer reshape, of the rank of the original output; it declines
  when the rank of the fused result differs from the rank of the original output; and
  it returns the fused result when the ranks are equal and the static shapes agree in
  every dimension where either is 1. Literal sizes other than 1 are not compared.
\<close>

theorem local_reshape_chain_rank:
  "(\<not> check_chain node \<longrightarrow> local_reshape_chain L st node = Inr (None, st))
   \<and> (local_reshape_chain L st node = Inr (Some vs, st') \<longrightarrow>
        check_chain node
        \<and> (\<exists>r shp rest n f x xs outs t.
              inputs node = r # shp # rest \<and> owner r = Some (Apply n f (x # xs) outs)
              \<and> vs = [OutVar (Suc (Suc (last_id st))) t
                         (Apply (Suc (last_id st)) (aop node) [x, shp] [(Suc (Suc (last_id st)), t)])]
              \<and> (\<exists>out os. outputs node = out # os \<and> ndim t = ndim (vtype out))))
   \<and> (check_chain node \<and> inputs node = r # shp # rest
        \<and> owner r = Some (Apply n f (x # xs) outs)
        \<and> reshape_output_type L (aop node) x shp = Inr t \<and> outputs node = out # os \<longrightarrow>
          (ndim t = Some k1 \<and> ndim (vtype out) = Some k2 \<and> k1 \<noteq> k2 \<longrightarrow>
             (\<exists>st1. local_reshape_chain L st node = Inr (None, st1)))
          \<and> (t = TensorT dt1 sh1 \<and> vtype out = TensorT dt2 sh2 \<and> length sh1 = length sh2
               \<and> broadcast_pattern_agrees sh1 sh2 \<longrightarrow>
             (\<exists>rval st1. local_reshape_chain L st node = Inr (Some [rval], st1)
                \<and> owner rval = Some (Apply (Suc (last_id st)) (aop node) [x, shp]
                                        [(Suc (Suc (last_id st)), t)]))))"
proof -
  have decline: "local_reshape_chain L st node = Inr (None, st)" if "\<not> check_chain node"
    using that by (simp add: local_reshape_chain_def)
  have fires: "check_chain node
        \<and> (\<exists>r shp rest n f x xs outs t.
              inputs node = r # shp # rest \<and> owner r = Some (Apply n f (x # xs) outs)
              \<and> vs = [OutVar (Suc (Suc (last_id st))) t
                         (Apply (Suc (last_id st)) (aop node) [x, shp] [(Suc (Suc (last_id st)), t)])]
              \<and> (\<exists>out os. outputs node = out # os \<and> ndim t = ndim (vtype out)))"
    if "local_reshape_chain L st node = Inr (Some vs, st')"
    using that
    by (auto simp: local_reshape_chain_def op_call_def fresh_def broadcast_pattern_kept_def
        split: if_splits list.splits option.splits apply_node.splits sum.splits prod.splits
               bool.splits)
  have rank: "\<exists>st1. local_reshape_chain L st node = Inr (None, st1)"
    if "check_chain node" "inputs node = r # shp # rest"
      "owner r = Some (Apply n f (x # xs) outs)"
      "reshape_output_type L (aop node) x shp = Inr t" "outputs node = out # os"
      "ndim t = Some k1" "ndim (vtype out) = Some k2" "k1 \<noteq> k2"
    using that
    by (simp add: local_reshape_chain_def op_call_def fresh_def broadcast_pattern_kept_def)
  have ok: "\<exists>rval st1. local_reshape_chain L st node = Inr (Some [rval], st1)
                \<and> owner rval = Some (Apply (Suc (last_id st)) (aop node) [x, shp]
                                        [(Suc (Suc (last_id st)), t)])"
    if "check_chain node" "inputs node = r # shp # rest"
      "owner r = Some (Apply n f (x # xs) outs)"
      "reshape_output_type L (aop node) x shp = Inr t" "outputs node = out # os"
      "t = TensorT dt1 sh1" "vtype out = TensorT dt2 sh2" "length sh1 = length sh2"
    using that
    by (simp add: local_reshape_chain_def op_call_def fresh_def broadcast_pattern_kept_def list_all_iff)
  from decline fires rank ok show ?thesis by blast
qed

text \<open>
  C4 as stated fails: the original output has its first dimension pinned to 5, the fused
  result has it pinned to 3, and the rewrite returns the fused result.
\<close>

theorem local_reshape_chain_literal_counterexample:
  "check_chain outer_reshape
   \<and> map vtype (outputs outer_reshape) = [TensorT ''float64'' [Some 5, None]]
   \<and> reshape_output_type lib3 (aop outer_reshape) xr sh_b = Inr (TensorT ''float64'' [Some 3, None])
   \<and> local_reshape_chain lib3 st_empty outer_reshape =
       Inr (Some [OutVar 12 (TensorT ''float64'' [Some 3, None])
                    (Apply 11 (Reshape 2) [xr, sh_b] [(12, TensorT ''float64'' [Some 3, None])])],
            st_empty\<lparr>last_id := 12\<rparr>)"
  by (simp add: local_reshape_chain_def op_call_def fresh_def broadcast_pattern_kept_def check_chain_def
      outer_reshape_def inner_reshape_def lib3_def lib0_def st_empty_def T2_def)


theorem local_reshape_chain_rank_witness:
  "\<not> check_chain add1 \<and> local_reshape_chain lib0 st_empty add1 = Inr (None, st_empty)
   \<and> check_chain outer_reshape
   \<and> inputs outer_reshape = [OutVar 94 T2 inner_reshape, sh_b]
   \<and> owner (OutVar 94 T2 inner_reshape) = Some (Apply 93 (Reshape 2) [xr, sh_a] [(94, T2)])
   \<and> reshape_output_type lib4 (aop outer_reshape) xr sh_b = Inr (TensorT ''float64'' [None])
   \<and> (\<exists>st1. local_reshape_chain lib4 st_empty outer_reshape = Inr (None, st1))
   \<and> reshape_output_type lib0 (aop outer_reshape) xr sh_b = Inr T2
   \<and> broadcast_pattern_agrees [None, None] [Some 5, None]
   \<and> (\<exists>rval st1. local_reshape_chain lib0 st_empty outer_reshape = Inr (Some [rval], st1)
         \<and> owner rval = Some (Apply 11 (Reshape 2) [xr, sh_b] [(12, T2)]))"
proof -
  have a: "\<not> check_chain add1"
    by (simp add: check_chain_def add1_def)
  have b: "check_chain outer_reshape"
    "inputs outer_reshape = [OutVar 94 T2 inner_reshape, sh_b]"
    "owner (OutVar 94 T2 inner_reshape) = Some (Apply 93 (Reshape 2) [xr, sh_a] [(94, T2)])"
    "outputs outer_reshape = [OutVar 96 (TensorT ''float64'' [Some 5, None]) outer_reshape]"
    "aop outer_reshape = Reshape 2"
    by (simp_all add: check_chain_def outer_reshape_def inner_reshape_def)
  have c: "reshape_output_type lib4 (aop outer_reshape) xr sh_b = Inr (TensorT ''float64'' [None])"
    "reshape_output_type lib0 (aop outer_reshape) xr sh_b = Inr T2"
    by (simp_all add: lib4_def lib0_def b(5) T2_def numeral_2_eq_2)
  have d: "broadcast_pattern_agrees [None, None] [Some 5, None]"
    by (simp add: broadcast_pattern_agrees_def)
  have n: "last_id st_empty = 10" by (simp add: st_empty_def)
  note t1 = local_reshape_chain_rank [where node = add1 and L = lib0 and st = st_empty]
  note t2 = local_reshape_chain_rank [where node = outer_reshape and L = lib4 and st = st_empty
      and r = "OutVar 94 T2 inner_reshape" and shp = sh_b and rest = "[]" and n = 93
      and f = "Reshape 2" and x = xr and xs = "[sh_a]" and outs = "[(94, T2)]"
      and t = "TensorT ''float64'' [None]"
      and out = "OutVar 96 (TensorT ''float64'' [Some 5, None]) outer_reshape" and os = "[]"
      and ?k1.0 = 1 and ?k2.0 = 2]
  note t3 = local_reshape_chain_rank [where node = outer_reshape and L = lib0 and st = st_empty
      and r = "OutVar 94 T2 inner_reshape" and shp = sh_b and rest = "[]" and n = 93
      and f = "Reshape 2" and x = xr and xs = "[sh_a]" and outs = "[(94, T2)]"
      and t = T2
      and out = "OutVar 96 (TensorT ''float64'' [Some 5, None]) outer_reshape" and os = "[]"
      and ?dt1.0 = "''float64''" and ?sh1.0 = "[None, None]"
      and ?dt2.0 = "''float64''" and ?sh2.0 = "[Some 5, None]"]
  from t1 a have r1: "local_reshape_chain lib0 st_empty add1 = Inr (None, st_empty)"
    by blast
  from t2 b c(1) have r2: "\<exists>st1. local_reshape_chain lib4 st_empty outer_reshape = Inr (None, st1)"
    by simp
  from t3 b c(2) d n
  have r3: "\<exists>rval st1. local_reshape_chain lib0 st_empty outer_reshape = Inr (Some [rval], st1)
         \<and> owner rval = Some (Apply 11 (Reshape 2) [xr, sh_b] [(12, T2)])"
    by (simp add: T2_def)
  from a b c d r1 r2 r3 show ?thesis by blast
qed


section \<open>The dispatch of shape inference\<close>

text \<open>
  C5 (amended): when the operator has a rule and the inputs are tracked,
  \<open>get_node_infer_shape\<close> returns what the rule returns; a rule that raises ShapeError
  gives the generic fallback \<open>default_infer_shape\<close>; a rule that raises
  NotImplementedError gives NotImplementedError whatever the policy; a rule that raises
  any other Exception gives, by the configured policy, a raised Exception (policy
  "raise") or a warning followed by the generic fallback (any other policy).
\<close>

theorem get_node_infer_shape_dispatch:
  assumes "input_shapes st (inputs node) = Inr i_shapes"
    and "infer_shape L (aop node) = Some rule"
  shows "(rule fg node i_shapes = Inr o_shapes \<longrightarrow>
            get_node_infer_shape L st fg node = Inr (o_shapes, st))
       \<and> (rule fg node i_shapes = Inl ShapeError \<longrightarrow>
            get_node_infer_shape L st fg node = default_infer_shape L st fg node i_shapes)
       \<and> (rule fg node i_shapes = Inl NotImplementedError \<longrightarrow>
            get_node_infer_shape L st fg node = Inl NotImplementedError)
       \<and> (rule fg node i_shapes = Inl e \<and> e \<noteq> ShapeError \<and> e \<noteq> NotImplementedError
            \<and> is_Exception e \<longrightarrow>
            (on_shape_error L = ''raise'' \<longrightarrow>
               get_node_infer_shape L st fg node = Inl (Exception infer_shape_failed))
            \<and> (on_shape_error L \<noteq> ''raise'' \<longrightarrow>
               get_node_infer_shape L st fg node =
                 default_infer_shape L (st\<lparr>warnings := warnings st @ [infer_shape_failed]\<rparr>)
                   fg node i_shapes))"
  using assms
  by (cases e) (auto simp: get_node_infer_shape_def)

text \<open>
  C5 as stated fails: with the policy "warn", a rule that raises NotImplementedError
  is not downgraded to a warning and the fallback; the error is raised.
\<close>

theorem not_implemented_counterexample:
  "infer_shape lib_ni (aop add1) = Some (\<lambda>fg node i_shapes. Inl NotImplementedError)
   \<and> on_shape_error lib_ni = ''warn''
   \<and> get_node_infer_shape lib_ni st5 fg0 add1 = Inl NotImplementedError"
  by (simp add: lib_ni_def lib0_def get_node_infer_shape_def add1_def st5_def x0_def x1_def)

theorem get_node_infer_shape_dispatch_witness:
  "input_shapes st5 (inputs add1) = Inr [Some [n0, c1], Some [c1, n1]]
   \<and> get_node_infer_shape lib_ok st5 fg0 add1 = Inr ([Some [SymVar n0, PyInt 5]], st5)
   \<and> get_node_infer_shape lib_se st5 fg0 add1 =
       default_infer_shape lib_se st5 fg0 add1 [Some [n0, c1], Some [c1, n1]]
   \<and> get_node_infer_shape lib_ni st5 fg0 add1 = Inl NotImplementedError
   \<and> on_shape_error lib_te_raise = ''raise''
   \<and> get_node_infer_shape lib_te_raise st5 fg0 add1 = Inl (Exception infer_shape_failed)
   \<and> on_shape_error lib_te \<noteq> ''raise''
   \<and> get_node_infer_shape lib_te st5 fg0 add1 =
       default_infer_shape lib_te (st5\<lparr>warnings := warnings st5 @ [infer_shape_failed]\<rparr>)
         fg0 add1 [Some [n0, c1], Some [c1, n1]]
   \<and> default_infer_shape lib_se st5 fg0 add1 [Some [n0, c1], Some [c1, n1]] =
       Inr ([Some [SymVar (OutVar 52 lscalar (Apply 51 (Shape_i 0) [y1] [(52, lscalar)])),
                   SymVar (OutVar 54 lscalar (Apply 53 (Shape_i 1) [y1] [(54, lscalar)]))]],
            st5\<lparr>last_id := 54\<rparr>)"
proof -
  have i: "input_shapes st5 (inputs add1) = Inr [Some [n0, c1], Some [c1, n1]]"
    by (simp add: st5_def add1_def x0_def x1_def)
  have r: "infer_shape lib_ok (aop add1) = Some (\<lambda>fg node i_shapes. Inr [Some [SymVar n0, PyInt 5]])"
    "infer_shape lib_se (aop add1) = Some (\<lambda>fg node i_shapes. Inl ShapeError)"
    "infer_shape lib_ni (aop add1) = Some (\<lambda>fg node i_shapes. Inl NotImplementedError)"
    "infer_shape lib_te (aop add1) = Some (\<lambda>fg node i_shapes. Inl TypeError)"
    "infer_shape lib_te_raise (aop add1) = Some (\<lambda>fg node i_shapes. Inl TypeError)"
    by (simp_all add: lib_ok_def lib_se_def lib_ni_def lib_te_def lib_te_raise_def)
  have p: "on_shape_error lib_te_raise = ''raise''" "on_shape_error lib_te \<noteq> ''raise''"
    by (simp_all add: lib_te_raise_def lib_te_def lib0_def)
  have d: "default_infer_shape lib_se st5 fg0 add1 [Some [n0, c1], Some [c1, n1]] =
       Inr ([Some [SymVar (OutVar 52 lscalar (Apply 51 (Shape_i 0) [y1] [(52, lscalar)])),
                   SymVar (OutVar 54 lscalar (Apply 53 (Shape_i 1) [y1] [(54, lscalar)]))]],
            st5\<lparr>last_id := 54\<rparr>)"
    by (simp add: default_infer_shape_def add1_def y1_def shape_tuple_def T2_def shape_ir_def
        Shape_i_call_def fresh_def lib_se_def lib0_def st5_def upt_rec numeral_2_eq_2)
  from get_node_infer_shape_dispatch [OF i r(1), where fg = fg0
        and o_shapes = "[Some [SymVar n0, PyInt 5]]" and e = TypeError]
    get_node_infer_shape_dispatch [OF i r(2), where fg = fg0 and e = TypeError]
    get_node_infer_shape_dispatch [OF i r(3), where fg = fg0 and e = TypeError]
    get_node_infer_shape_dispatch [OF i r(4), where fg = fg0 and e = TypeError]
    get_node_infer_shape_dispatch [OF i r(5), where fg = fg0 and e = TypeError]
    i p d
  show ?thesis by simp
qed

section \<open>same_shape\<close>

lemma list_all_zip_same:
  "(\<And>v. P v v) \<Longrightarrow> list_all (\<lambda>(a, b). P a b) (zip xs xs)"
  by (induction xs) auto

text \<open>
  C6 (amended): for a value \<open>x\<close> whose tracked shape is known, \<open>same_shape(x, x, None,
  None)\<close> is true, given that the library's \<open>equal_computations\<close> holds of a variable
  and itself; \<open>same_shape(x, y)\<close> is false when the tracked shape of either side is
  unknown, and when both are known and their numbers of dimensions differ.
\<close>

theorem same_shape_reflexive_and_rank:
  "(shape_of st (vid x) = Some (Some sx) \<and> (\<forall>v. equal_computations L v v) \<longrightarrow>
      same_shape L st x x None None = Inr True)
   \<and> (shape_of st (vid x) = Some None \<and> vid y \<in> dom (shape_of st) \<longrightarrow>
        same_shape L st x y dim_x dim_y = Inr False)
   \<and> (vid x \<in> dom (shape_of st) \<and> shape_of st (vid y) = Some None \<longrightarrow>
        same_shape L st x y dim_x dim_y = Inr False)
   \<and> (shape_of st (vid x) = Some (Some sx) \<and> shape_of st (vid y) = Some (Some sy)
        \<and> length sx \<noteq> length sy \<longrightarrow>
        same_shape L st x y None None = Inr False)"
proof -
  have "same_shape L st x x None None = Inr True"
    if "shape_of st (vid x) = Some (Some sx)" "\<forall>v. equal_computations L v v"
  proof -
    have "list_all (\<lambda>(dx, dy). equal_computations L dx dy)
            (zip (map (fold_constants L) sx) (map (fold_constants L) sx))"
      by (rule list_all_zip_same) (use that(2) in simp)
    with that(1) show ?thesis
      by (simp add: same_shape_def restrict_dim_def canonical_outputs_def)
  qed
  moreover have "same_shape L st x y dim_x dim_y = Inr False"
    if "shape_of st (vid x) = Some None" "vid y \<in> dom (shape_of st)"
    using that by (auto simp: same_shape_def)
  moreover have "same_shape L st x y dim_x dim_y = Inr False"
    if "vid x \<in> dom (shape_of st)" "shape_of st (vid y) = Some None"
    using that by (auto simp: same_shape_def split: option.splits)
  moreover have "same_shape L st x y None None = Inr False"
    if "shape_of st (vid x) = Some (Some sx)" "shape_of st (vid y) = Some (Some sy)"
      "length sx \<noteq> length sy"
    using that by (simp add: same_shape_def restrict_dim_def)
  ultimately show ?thesis by blast
qed

text \<open>
  C6 as stated fails: for a value whose tracked shape is unknown, \<open>same_shape(x, x, None,
  None)\<close> is false.
\<close>

theorem same_shape_unknown_counterexample:
  "shape_of st0 (vid x0) = Some None \<and> same_shape lib0 st0 x0 x0 None None = Inr False"
  by (simp add: same_shape_def st0_def x0_def)


theorem same_shape_reflexive_and_rank_witness:
  "shape_of st6 (vid x0) = Some (Some [n0, c1]) \<and> (\<forall>v. equal_computations lib0 v v)
   \<and> same_shape lib0 st6 x0 x0 None None = Inr True
   \<and> shape_of st6 (vid x1) = Some None \<and> vid x0 \<in> dom (shape_of st6)
   \<and> same_shape lib0 st6 x1 x0 None None = Inr False
   \<and> same_shape lib0 st6 x0 x1 None None = Inr False
   \<and> shape_of st6 (vid y1) = Some (Some [n0]) \<and> length [n0, c1] \<noteq> length [n0]
   \<and> same_shape lib0 st6 x0 y1 None None = Inr False"
proof -
  have a: "shape_of st6 (vid x0) = Some (Some [n0, c1])" "shape_of st6 (vid x1) = Some None"
    "shape_of st6 (vid y1) = Some (Some [n0])" "vid x0 \<in> dom (shape_of st6)"
    by (simp_all add: st6_def x0_def x1_def y1_def)
  have e: "\<forall>v. equal_computations lib0 v v" by (simp add: lib0_def)
  from same_shape_reflexive_and_rank [where st = st6 and x = x0 and y = x0 and L = lib0
        and sx = "[n0, c1]" and sy = "[n0]" and dim_x = None and dim_y = None]
    same_shape_reflexive_and_rank [where st = st6 and x = x1 and y = x0 and L = lib0
        and sx = "[n0, c1]" and sy = "[n0]" and dim_x = None and dim_y = None]
    same_shape_reflexive_and_rank [where st = st6 and x = x0 and y = x1 and L = lib0
        and sx = "[n0, c1]" and sy = "[n0]" and dim_x = None and dim_y = None]
    same_shape_reflexive_and_rank [where st = st6 and x = x0 and y = y1 and L = lib0
        and sx = "[n0, c1]" and sy = "[n0]" and dim_x = None and dim_y = None]
    a e
  show ?thesis by simp
qed

end
